theory Spec2Isabelle
  imports Complex_Main "HOL-Library.Word" "HOL-Library.Log_Nat"
begin

section \<open>Status codes\<close>

text \<open>
  The functions of QCamera3PostProc.cpp return an \<open>int32_t\<close> status. The codes come from
  the platform header utils/Errors.h; the dispatcher also stores the literal \<open>-1\<close> in the
  same variable and compares against \<open>0\<close>, so a status is modelled as an integer.
\<close>

type_synonym status = int

abbreviation (input) NO_ERROR :: status where "NO_ERROR \<equiv> 0"
abbreviation (input) BAD_VALUE :: status where "BAD_VALUE \<equiv> - 22"
abbreviation (input) NO_MEMORY :: status where "NO_MEMORY \<equiv> - 12"
abbreviation (input) UNKNOWN_ERROR :: status where "UNKNOWN_ERROR \<equiv> - 2147483648"
abbreviation (input) BAD_INDEX :: status where "BAD_INDEX \<equiv> - 75"

section \<open>EXIF helper functions\<close>

text \<open>\<open>rat_t\<close>: an unsigned rational with two \<open>uint32_t\<close> fields.\<close>

record rat_t =
  rat_num :: "32 word"
  rat_denom :: "32 word"

text \<open>
  \<open>getRational(rat_t *rat, int num, int denom)\<close>. The output pointer is modelled as an
  optional cell: \<open>None\<close> is the NULL pointer, \<open>Some r\<close> a cell holding \<open>r\<close>; the
  function returns the status together with the cell after the call. The two \<open>int\<close>
  arguments are 32-bit words read as two's complement.
\<close>

definition getRational :: "rat_t option \<Rightarrow> 32 word \<Rightarrow> 32 word \<Rightarrow> status \<times> rat_t option" where
  "getRational rat num denom =
     (if 0 > sint num \<or> 0 \<ge> sint denom then (BAD_VALUE, rat)
      else case rat of
             None \<Rightarrow> (BAD_VALUE, None)
           | Some _ \<Rightarrow> (NO_ERROR, Some \<lparr>rat_num = num, rat_denom = denom\<rparr>))"

text \<open>
  \<open>getExifExpTimeInfo(rat_t *expoTimeInfo, int64_t value)\<close>: the 64-bit value is replaced
  by 60 when it is zero, then cast to \<open>int\<close> (the low 32 bits) for \<open>getRational\<close>.
\<close>

definition getExifExpTimeInfo :: "rat_t option \<Rightarrow> 64 word \<Rightarrow> status \<times> rat_t option" where
  "getExifExpTimeInfo expoTimeInfo val =
     (let cal_exposureTime = (if val \<noteq> 0 then val else 60)
      in getRational expoTimeInfo 1 (ucast cal_exposureTime))"

subsection \<open>Floating point\<close>

text \<open>
  The GPS helpers compute in IEEE 754 binary floating point: \<open>double\<close> has 53 bits of
  precision and \<open>float\<close> has 24. A finite floating-point value is a rational number, and
  an operation returns the exact result rounded to the nearest value the format has,
  the one with an even last digit when two are equally near. \<open>round_half_even\<close> is that
  rounding to an integer, \<open>binade x\<close> the exponent \<open>e\<close> with \<open>2^e \<le> |x| < 2^(e+1)\<close>, and
  \<open>fl p\<close> the rounding to \<open>p\<close> bits of precision. The exponent range is left unbounded:
  overflow, subnormal numbers, infinities and NaN are not modelled.
\<close>

definition round_half_even :: "rat \<Rightarrow> int" where
  "round_half_even x =
     (let n = \<lfloor>x\<rfloor>; r = x - of_int n
      in if r < 1 / 2 then n else if 1 / 2 < r then n + 1 else if even n then n else n + 1)"

definition binade :: "rat \<Rightarrow> int" where
  "binade x =
     (let (a, b) = quotient_of \<bar>x\<bar>; k = bitlen a - bitlen b
      in if 2 powi k \<le> \<bar>x\<bar> then k else k - 1)"

definition fl :: "nat \<Rightarrow> rat \<Rightarrow> rat" where
  "fl p x =
     (if x = 0 then 0
      else let u = 2 powi (binade x - int p + 1)
           in (if x < 0 then - 1 else 1) * (of_int (round_half_even (\<bar>x\<bar> / u)) * u))"

text \<open>
  \<open>snprintf(str, sizeof(str), "%f", value)\<close>: the value in decimal notation with six
  digits after the point, correctly rounded, with a minus sign when the value is negative
  (also when it rounds to zero). The text is kept as its sign and its digits read as one
  integer, which is the rendered magnitude in millionths. The buffer holds 29 characters,
  enough for every value below \<open>10^21\<close>; a longer rendering is cut off with at least 21
  digits left before the point, and the \<open>(int)\<close> cast of such a number is undefined.
\<close>

record decimal_text =
  negative :: bool
  micro :: int

definition snprintf_f :: "rat \<Rightarrow> decimal_text" where
  "snprintf_f v = \<lparr>negative = (v < 0), micro = round_half_even (\<bar>v\<bar> * 1000000)\<rparr>"

text \<open>The number a text denotes, and what \<open>atof\<close> and \<open>strtof\<close> make of it: the nearest
  \<open>double\<close> and the nearest \<open>float\<close>.\<close>

definition text_value :: "decimal_text \<Rightarrow> rat" where
  "text_value t =
     (if negative t then - (of_int (micro t) / 1000000) else of_int (micro t) / 1000000)"

definition atof :: "decimal_text \<Rightarrow> rat" where
  "atof t = fl 53 (text_value t)"

definition strtof :: "decimal_text \<Rightarrow> rat" where
  "strtof t = fl 24 (text_value t)"

text \<open>The cast \<open>(int)x\<close> of a \<open>double\<close>: the fraction is dropped; the behaviour is undefined
  (\<open>None\<close>) when the result is not an \<open>int\<close>.\<close>

definition double_to_int :: "rat \<Rightarrow> 32 word option" where
  "double_to_int x =
     (let t = (if 0 \<le> x then \<lfloor>x\<rfloor> else \<lceil>x\<rceil>)
      in if - (2 ^ 31) \<le> t \<and> t < 2 ^ 31 then Some (word_of_int t) else None)"

subsection \<open>GPS coordinates\<close>

text \<open>The call \<open>getRational(&coord[i], num, denom)\<close>, whose status \<open>parseGPSCoordinate\<close>
  does not look at: the cell keeps its content when the call refuses.\<close>

definition store_rational :: "rat_t list \<Rightarrow> nat \<Rightarrow> 32 word \<Rightarrow> 32 word \<Rightarrow> rat_t list" where
  "store_rational coord i num denom =
     (case snd (getRational (Some (coord ! i)) num denom) of
        None \<Rightarrow> coord
      | Some r \<Rightarrow> coord[i := r])"

text \<open>
  \<open>parseGPSCoordinate(coord_str, coord)\<close>: \<open>coord\<close> points to an array of \<open>rat_t\<close>, given
  as the list of its cells (\<open>None\<close> for NULL). The result is the status and the array
  after the call; it is \<open>None\<close> when a cast is undefined or the array has fewer than the
  three cells that are written. The subtraction of the integer part and the three
  multiplications are \<open>double\<close> operations.
\<close>

definition parseGPSCoordinate ::
  "decimal_text \<Rightarrow> rat_t list option \<Rightarrow> (status \<times> rat_t list option) option" where
  "parseGPSCoordinate coord_str coord =
     (case coord of
        None \<Rightarrow> Some (BAD_VALUE, None)
      | Some cs \<Rightarrow>
          let d0 = atof coord_str;
              degF = (if d0 < 0 then - d0 else d0)
          in case double_to_int degF of
               None \<Rightarrow> None
             | Some ideg \<Rightarrow>
                 let minF = fl 53 (fl 53 (degF - of_int (sint ideg)) * 60)
                 in case double_to_int minF of
                      None \<Rightarrow> None
                    | Some imin \<Rightarrow>
                        let secF = fl 53 (fl 53 (minF - of_int (sint imin)) * 60)
                        in case double_to_int (fl 53 (secF * 10000)) of
                             None \<Rightarrow> None
                           | Some isec \<Rightarrow>
                               if length cs < 3 then None
                               else Some (NO_ERROR,
                                      Some (store_rational
                                             (store_rational (store_rational cs 0 ideg 1)
                                                1 imin 1)
                                             2 isec 10000)))"

text \<open>
  \<open>getExifLatitude(latitude, latRef, value)\<close> and
  \<open>getExifLongitude(longitude, lonRef, value)\<close>: the coordinate is rendered, the
  rendering is parsed into the triplet, and the reference letter is chosen by the sign of
  the rendering read back as a \<open>float\<close>. The result is the status, the array and the
  string written to the reference buffer. The test \<open>str != NULL\<close> of a local array
  never fails, and the status of \<open>parseGPSCoordinate\<close> is not looked at.
\<close>

definition getExifLatitude ::
  "rat_t list option \<Rightarrow> rat \<Rightarrow> (status \<times> rat_t list option \<times> string) option" where
  "getExifLatitude latitude v =
     (let str = snprintf_f v
      in case parseGPSCoordinate str latitude of
           None \<Rightarrow> None
         | Some (rc, lat) \<Rightarrow>
             Some (NO_ERROR, lat, if strtof str < 0 then ''S'' else ''N''))"

definition getExifLongitude ::
  "rat_t list option \<Rightarrow> rat \<Rightarrow> (status \<times> rat_t list option \<times> string) option" where
  "getExifLongitude longitude v =
     (let str = snprintf_f v
      in case parseGPSCoordinate str longitude of
           None \<Rightarrow> None
         | Some (rc, lon) \<Rightarrow>
             Some (NO_ERROR, lon, if strtof str < 0 then ''W'' else ''E''))"

text \<open>The number an unsigned rational denotes, and the decimal degrees that a triplet of
  degrees, minutes and seconds denotes.\<close>

definition rat_value :: "rat_t \<Rightarrow> rat" where
  "rat_value r = of_nat (unat (rat_num r)) / of_nat (unat (rat_denom r))"

definition dms_degrees :: "rat_t list \<Rightarrow> rat" where
  "dms_degrees cs = rat_value (cs ! 0) + rat_value (cs ! 1) / 60 + rat_value (cs ! 2) / 3600"

text \<open>An array of three cells, as the caller of the two functions declares it.\<close>

definition sample_cells :: "rat_t list" where
  "sample_cells = replicate 3 \<lparr>rat_num = 0, rat_denom = 0\<rparr>"



text \<open>
  \<open>QCamera3Exif\<close>: a fixed array of tag entries and the number of entries in use. The
  entry payload is a C union of an inline value or a pointer to a heap copy; the caller's
  \<open>void *data\<close> is the list of bytes found at that address. The entry types are the ones
  the \<open>switch\<close> of \<open>addEntry\<close> names; any other value takes its \<open>default\<close> branch.
\<close>

datatype exif_tag_type =
    EXIF_BYTE | EXIF_ASCII | EXIF_SHORT | EXIF_LONG | EXIF_RATIONAL
  | EXIF_UNDEFINED | EXIF_SLONG | EXIF_SRATIONAL | EXIF_OTHER nat

datatype exif_data = ZeroData | Inline "8 word list" | HeapCopy "8 word list"

record exif_tag_entry =
  entry_type :: exif_tag_type
  entry_count :: nat
  entry_copy :: nat
  entry_data :: exif_data

record QEXIF_INFO_DATA =
  tag_id :: nat
  tag_entry :: exif_tag_entry

record QCamera3Exif =
  m_Entries :: "QEXIF_INFO_DATA list"
  m_nNumEntries :: nat

text \<open>The constructor: no entry in use, the array zeroed. The array length is the constant
  \<open>MAX_HAL3_EXIF_TABLE_ENTRIES\<close> of a header outside this file, taken as a parameter.\<close>

definition zero_entry :: QEXIF_INFO_DATA where
  "zero_entry = \<lparr>tag_id = 0,
     tag_entry = \<lparr>entry_type = EXIF_OTHER 0, entry_count = 0, entry_copy = 0,
                  entry_data = ZeroData\<rparr>\<rparr>"

definition QCamera3Exif_new :: "nat \<Rightarrow> QCamera3Exif" where
  "QCamera3Exif_new MAX_HAL3_EXIF_TABLE_ENTRIES =
     \<lparr>m_Entries = replicate MAX_HAL3_EXIF_TABLE_ENTRIES zero_entry, m_nNumEntries = 0\<rparr>"

text \<open>Size in bytes of one element of each entry type (\<open>sizeof\<close> in the \<open>malloc\<close> and
  \<open>memcpy\<close> calls).\<close>

fun elem_size :: "exif_tag_type \<Rightarrow> nat" where
  "elem_size EXIF_BYTE = 1"
| "elem_size EXIF_ASCII = 1"
| "elem_size EXIF_SHORT = 2"
| "elem_size EXIF_LONG = 4"
| "elem_size EXIF_RATIONAL = 8"
| "elem_size EXIF_UNDEFINED = 1"
| "elem_size EXIF_SLONG = 4"
| "elem_size EXIF_SRATIONAL = 8"
| "elem_size (EXIF_OTHER _) = 0"

text \<open>
  The payload stored by the \<open>switch\<close> of \<open>addEntry\<close>: the status and the new content of
  the entry's data union (\<open>old\<close> when nothing is written). \<open>malloc_ok\<close> says whether the
  allocation of the heap copy succeeds. ASCII copies \<open>count\<close> bytes into a zeroed buffer
  of \<open>count + 1\<close> bytes; ASCII and UNDEFINED always allocate, the other types only when
  \<open>count > 1\<close>.
\<close>

definition store_data ::
  "bool \<Rightarrow> exif_tag_type \<Rightarrow> nat \<Rightarrow> 8 word list \<Rightarrow> exif_data \<Rightarrow> status \<times> exif_data" where
  "store_data malloc_ok ty cnt bytes old =
     (case ty of
        EXIF_OTHER _ \<Rightarrow> (NO_ERROR, old)
      | EXIF_ASCII \<Rightarrow>
          (if \<not> malloc_ok then (NO_MEMORY, old)
           else (NO_ERROR, HeapCopy (take cnt bytes @ replicate (cnt + 1 - length (take cnt bytes)) 0)))
      | EXIF_UNDEFINED \<Rightarrow>
          (if \<not> malloc_ok then (NO_MEMORY, old)
           else (NO_ERROR, HeapCopy (take cnt bytes)))
      | _ \<Rightarrow>
          (if cnt > 1 then
             (if \<not> malloc_ok then (NO_MEMORY, old)
              else (NO_ERROR, HeapCopy (take (cnt * elem_size ty) bytes)))
           else (NO_ERROR, Inline (take (elem_size ty) bytes))))"

text \<open>
  \<open>QCamera3Exif::addEntry(tagid, type, count, data)\<close>: refuses with \<open>NO_MEMORY\<close> when the
  table is full; otherwise fills the slot at \<open>m_nNumEntries\<close> and increments the count
  (also when the heap copy could not be allocated, in which case it returns
  \<open>NO_MEMORY\<close> after the increment).
\<close>

definition addEntry ::
  "nat \<Rightarrow> bool \<Rightarrow> QCamera3Exif \<Rightarrow> nat \<Rightarrow> exif_tag_type \<Rightarrow> nat \<Rightarrow> 8 word list
     \<Rightarrow> status \<times> QCamera3Exif" where
  "addEntry MAX_HAL3_EXIF_TABLE_ENTRIES malloc_ok exif tagid ty cnt bytes =
     (if m_nNumEntries exif \<ge> MAX_HAL3_EXIF_TABLE_ENTRIES then (NO_MEMORY, exif)
      else
        let n = m_nNumEntries exif;
            old = entry_data (tag_entry (m_Entries exif ! n));
            (rc, d) = store_data malloc_ok ty cnt bytes old;
            e = \<lparr>tag_id = tagid,
                 tag_entry = \<lparr>entry_type = ty, entry_count = cnt, entry_copy = 1,
                              entry_data = d\<rparr>\<rparr>
        in (rc, exif\<lparr>m_Entries := (m_Entries exif)[n := e], m_nNumEntries := n + 1\<rparr>))"


section \<open>Frames, settings and encode parameters\<close>

record cam_dimension =
  width :: int
  height :: int

record cam_rect =
  rect_left :: int
  rect_top :: int
  rect_width :: int
  rect_height :: int

record mm_jpeg_dim =
  src_dim :: cam_dimension
  dst_dim :: cam_dimension
  crop :: cam_rect

text \<open>Plane layout of a buffer (\<open>cam_frame_len_offset_t\<close>): of each plane only the stride
  and the scan-line count are read or written by this file.\<close>

record cam_mp_len_offset =
  stride :: int
  scanline :: int

record cam_frame_len_offset =
  num_planes :: nat
  mp :: "cam_mp_len_offset list"
  frame_len :: nat

datatype cam_format =
    CAM_FORMAT_YUV_420_NV21 | CAM_FORMAT_YUV_420_NV21_VENUS | CAM_FORMAT_YUV_420_NV21_ADRENO
  | CAM_FORMAT_YUV_420_NV12 | CAM_FORMAT_YUV_420_NV12_VENUS | CAM_FORMAT_YUV_420_YV12
  | CAM_FORMAT_YUV_422_NV61 | CAM_FORMAT_YUV_422_NV16 | CAM_FORMAT_OTHER nat

datatype mm_jpeg_color_format =
    MM_JPEG_COLOR_FORMAT_YCRCBLP_H2V2 | MM_JPEG_COLOR_FORMAT_YCBCRLP_H2V2
  | MM_JPEG_COLOR_FORMAT_YCRCBLP_H2V1 | MM_JPEG_COLOR_FORMAT_YCBCRLP_H2V1

datatype mm_jpeg_format = MM_JPEG_FMT_YUV | MM_JPEG_FMT_BITSTREAM

fun getColorfmtFromImgFmt :: "cam_format \<Rightarrow> mm_jpeg_color_format" where
  "getColorfmtFromImgFmt CAM_FORMAT_YUV_420_NV21 = MM_JPEG_COLOR_FORMAT_YCRCBLP_H2V2"
| "getColorfmtFromImgFmt CAM_FORMAT_YUV_420_NV21_VENUS = MM_JPEG_COLOR_FORMAT_YCRCBLP_H2V2"
| "getColorfmtFromImgFmt CAM_FORMAT_YUV_420_NV21_ADRENO = MM_JPEG_COLOR_FORMAT_YCRCBLP_H2V2"
| "getColorfmtFromImgFmt CAM_FORMAT_YUV_420_NV12 = MM_JPEG_COLOR_FORMAT_YCBCRLP_H2V2"
| "getColorfmtFromImgFmt CAM_FORMAT_YUV_420_NV12_VENUS = MM_JPEG_COLOR_FORMAT_YCBCRLP_H2V2"
| "getColorfmtFromImgFmt CAM_FORMAT_YUV_420_YV12 = MM_JPEG_COLOR_FORMAT_YCBCRLP_H2V2"
| "getColorfmtFromImgFmt CAM_FORMAT_YUV_422_NV61 = MM_JPEG_COLOR_FORMAT_YCRCBLP_H2V1"
| "getColorfmtFromImgFmt CAM_FORMAT_YUV_422_NV16 = MM_JPEG_COLOR_FORMAT_YCBCRLP_H2V1"
| "getColorfmtFromImgFmt (CAM_FORMAT_OTHER _) = MM_JPEG_COLOR_FORMAT_YCRCBLP_H2V2"

record mm_jpeg_buf =
  buf_index :: nat
  buf_size :: int
  buf_vaddr :: nat
  buf_fd :: int
  buf_format :: mm_jpeg_format
  buf_offset :: cam_frame_len_offset

text \<open>
  Modelled from the spec: the field types of \<open>jpeg_settings_t\<close> and
  \<open>mm_jpeg_encode_params_t\<close>, whose headers are not under src/. The spec lists the
  settings (quality, thumbnail size, orientation, output buffer index); the qualities
  and the orientation are signed integers here, as the source's comparison
  \<open>quality <= 0\<close> is written. The fields read only by \<open>getExifData\<close> (GPS, description)
  are left out. The three buffer arrays have \<open>MM_JPEG_MAX_BUF\<close> slots, a constant of the
  same header, taken as a parameter.
\<close>

record jpeg_settings_t =
  jpeg_orientation :: int
  jpeg_quality :: int
  jpeg_thumb_quality :: int
  thumbnail_size :: cam_dimension
  out_buf_index :: nat

record mm_jpeg_encode_params =
  jpeg_cb :: nat
  userdata :: nat
  encode_thumbnail :: bool
  color_format :: mm_jpeg_color_format
  quality :: int
  thumb_quality :: int
  num_src_bufs :: nat
  src_main_buf :: "mm_jpeg_buf list"
  num_tmb_bufs :: nat
  src_thumb_buf :: "mm_jpeg_buf list"
  num_dst_bufs :: nat
  dest_buf :: "mm_jpeg_buf list"
  main_dim :: mm_jpeg_dim
  thumb_dim :: mm_jpeg_dim
  rotation :: int

text \<open>The values \<open>memset(&x, 0, sizeof x)\<close> leaves behind.\<close>

definition zero_dim :: cam_dimension where
  "zero_dim = \<lparr>width = 0, height = 0\<rparr>"

definition zero_rect :: cam_rect where
  "zero_rect = \<lparr>rect_left = 0, rect_top = 0, rect_width = 0, rect_height = 0\<rparr>"

definition zero_jpeg_dim :: mm_jpeg_dim where
  "zero_jpeg_dim = \<lparr>src_dim = zero_dim, dst_dim = zero_dim, crop = zero_rect\<rparr>"

definition zero_offset :: cam_frame_len_offset where
  "zero_offset = \<lparr>num_planes = 0, mp = [], frame_len = 0\<rparr>"

definition zero_buf :: mm_jpeg_buf where
  "zero_buf = \<lparr>buf_index = 0, buf_size = 0, buf_vaddr = 0, buf_fd = 0,
                buf_format = MM_JPEG_FMT_YUV, buf_offset = zero_offset\<rparr>"

definition zero_params :: "nat \<Rightarrow> mm_jpeg_encode_params" where
  "zero_params MM_JPEG_MAX_BUF =
     \<lparr>jpeg_cb = 0, userdata = 0, encode_thumbnail = False,
      color_format = MM_JPEG_COLOR_FORMAT_YCRCBLP_H2V2, quality = 0, thumb_quality = 0,
      num_src_bufs = 0, src_main_buf = replicate MM_JPEG_MAX_BUF zero_buf,
      num_tmb_bufs = 0, src_thumb_buf = replicate MM_JPEG_MAX_BUF zero_buf,
      num_dst_bufs = 0, dest_buf = replicate MM_JPEG_MAX_BUF zero_buf,
      main_dim = zero_jpeg_dim, thumb_dim = zero_jpeg_dim, rotation = 0\<rparr>"

text \<open>
  External collaborators, as the values their getters return: a stream's buffer memory
  (\<open>QCamera3StreamMem\<close>; \<open>getSize\<close> answers \<open>BAD_INDEX\<close> for an index it does not
  know), a stream (\<open>QCamera3Stream\<close>) and a channel (\<open>QCamera3Channel\<close>).
\<close>

record stream_mem =
  getCnt :: nat
  getSize :: "nat \<Rightarrow> int"
  getPtr :: "nat \<Rightarrow> nat"
  getFd :: "nat \<Rightarrow> int"

datatype cam_stream_type =
  CAM_STREAM_TYPE_SNAPSHOT | CAM_STREAM_TYPE_OFFLINE_PROC | CAM_STREAM_TYPE_OTHER nat

record stream =
  getMyType :: cam_stream_type
  getFormat :: cam_format
  getFrameDimension :: cam_dimension
  getFrameOffset :: cam_frame_len_offset
  getStreamBufs :: "stream_mem option"

record channel =
  getMyHandle :: nat
  getStreamByHandle :: "nat \<Rightarrow> stream option"
  getStreamSize :: "status \<times> cam_dimension"

text \<open>The capture metadata buffer is opaque here: a \<open>metadata_buffer_t *\<close> is its address.\<close>

type_synonym metadata_buffer = nat

text \<open>\<open>qcamera_fwk_input_pp_data_t\<close>: a frame supplied by the framework, with its
  reprocess configuration and its own metadata buffer.\<close>

record fwk_input =
  fwk_frameNumber :: nat
  input_stream_dim :: cam_dimension
  output_stream_dim :: cam_dimension
  stream_format :: cam_format
  input_plane_info :: cam_frame_len_offset
  input_frame_len :: int
  input_buffer :: nat
  input_fd :: int
  fwk_metadata_buffer :: "metadata_buffer option"
  reprocess_needed :: bool

text \<open>
  \<open>mm_camera_super_buf_t\<close>: a frame borrowed from a channel. \<open>sb_bufs\<close> are its
  \<open>num_bufs\<close> buffer descriptors; of a descriptor the stream handle, the buffer index,
  whether its \<open>mem_info\<close> pointer is set, and the address in \<open>buffer\<close> are used.
\<close>

record buf_def =
  bd_stream_id :: nat
  bd_buf_idx :: nat
  bd_mem_info :: bool
  bd_buffer :: metadata_buffer

record super_buf =
  sb_addr :: nat
  sb_ch_id :: nat
  sb_bufs :: "buf_def list"

text \<open>\<open>qcamera_hal3_pp_buffer_t\<close>, \<open>qcamera_hal3_pp_data_t\<close> and
  \<open>qcamera_hal3_jpeg_data_t\<close>; a pointer field is an option, \<open>None\<close> for NULL.\<close>

record pp_buffer =
  pp_input :: "super_buf option"
  pp_output :: "nat option"
  pp_frameNumber :: nat

record pp_job =
  pp_src_frame :: "super_buf option"
  pp_fwk_src_frame :: "fwk_input option"
  pp_metadata :: "metadata_buffer option"
  pp_src_metadata :: "super_buf option"
  pp_jpeg_settings :: "jpeg_settings_t option"

record jpeg_job =
  jobId :: nat
  src_frame :: "super_buf option"
  src_reproc_frame :: "super_buf option"
  fwk_frame :: "fwk_input option"
  fwk_src_buffer :: "fwk_input option"
  metadata :: "metadata_buffer option"
  src_metadata :: "super_buf option"
  jpeg_settings :: "jpeg_settings_t option"
  pJpegExifObj :: "QCamera3Exif option"

definition zero_pp_job :: pp_job where
  "zero_pp_job = \<lparr>pp_src_frame = None, pp_fwk_src_frame = None, pp_metadata = None,
                   pp_src_metadata = None, pp_jpeg_settings = None\<rparr>"

definition zero_jpeg_job :: jpeg_job where
  "zero_jpeg_job = \<lparr>jobId = 0, src_frame = None, src_reproc_frame = None, fwk_frame = None,
                     fwk_src_buffer = None, metadata = None, src_metadata = None,
                     jpeg_settings = None, pJpegExifObj = None\<rparr>"

text \<open>The job descriptor handed to the encoder (\<open>mm_jpeg_job_t\<close>, its \<open>encode_job\<close>
  part). The constant fields (job type, HAL version) and the 3A debug blocks copied
  into it are left out.\<close>

record mm_jpeg_encode_job =
  job_session_id :: nat
  job_src_index :: nat
  job_dst_index :: nat
  job_rotation :: int
  job_main_dim :: mm_jpeg_dim
  job_thumb_dim :: mm_jpeg_dim
  job_thumb_index :: nat
  job_exif :: "QCamera3Exif option"
  job_p_metadata :: "metadata_buffer option"

definition zero_encode_job :: mm_jpeg_encode_job where
  "zero_encode_job = \<lparr>job_session_id = 0, job_src_index = 0, job_dst_index = 0,
     job_rotation = 0, job_main_dim = zero_jpeg_dim, job_thumb_dim = zero_jpeg_dim,
     job_thumb_index = 0, job_exif = None, job_p_metadata = None\<rparr>"

section \<open>Observable effects\<close>

text \<open>
  Every call that leaves the post-processor (to a channel, to the encoder, to the
  command thread) and every \<open>free\<close>/\<open>delete\<close> is recorded, in program order, as an
  effect. \<open>StartJob j d q\<close> is the call \<open>mJpegHandle.start_job\<close> made for the job \<open>j\<close>
  (as it was handed to the encode function) with the descriptor \<open>d\<close>; \<open>q\<close> is the
  content of the ongoing jpeg queue at the moment of the call.
\<close>

datatype object =
    SuperBufObj super_buf
  | FwkFrameObj fwk_input
  | SettingsObj jpeg_settings_t
  | ExifObj QCamera3Exif
  | JpegJobObj jpeg_job
  | PPJobObj pp_job
  | PPBufferObj pp_buffer

datatype camera_cmd =
    CAMERA_CMD_TYPE_START_DATA_PROC | CAMERA_CMD_TYPE_STOP_DATA_PROC
  | CAMERA_CMD_TYPE_DO_NEXT_JOB | CAMERA_CMD_TYPE_EXIT

datatype effect =
    ParentBufDone super_buf
  | ReprocBufDone super_buf
  | MetadataBufDone super_buf
  | Free object
  | AbortJob nat
  | DestroySession nat
  | CreateSession mm_jpeg_encode_params
  | StartJob jpeg_job mm_jpeg_encode_job "jpeg_job list"
  | CleanInvalidateCache nat
  | OverrideFwkMetadata fwk_input
  | OverrideMetadata pp_buffer
  | DoReprocessOffline nat
  | ReprocStop
  | ReprocDelete
  | UnmapOfflineBuffers bool
  | JpegClose nat
  | SendCmd camera_cmd
  | SyncPost

section \<open>Job queues\<close>

text \<open>
  Modelled from the spec: the job queue class (\<open>QCameraQueue\<close>), whose source is not
  under src/. The spec describes typed FIFO containers: \<open>enqueue\<close> appends an item,
  \<open>dequeue\<close> returns the oldest item or empty, \<open>flush\<close> drains all remaining items,
  invoking the owner-supplied release routine on each, \<open>isEmpty\<close> is a check, and
  \<open>init\<close> resets the queue state. The call \<open>dequeue(false)\<close>, which the source comments
  as "dequeue the last one", takes the newest item instead. A queue is the list of its
  items, oldest first.
\<close>

definition q_init :: "'a list \<Rightarrow> 'a list" where
  "q_init q = []"

definition q_enqueue :: "'a list \<Rightarrow> 'a \<Rightarrow> 'a list" where
  "q_enqueue q x = q @ [x]"

definition q_isEmpty :: "'a list \<Rightarrow> bool" where
  "q_isEmpty q = (q = [])"

fun q_dequeue :: "'a list \<Rightarrow> 'a option \<times> 'a list" where
  "q_dequeue [] = (None, [])"
| "q_dequeue (x # xs) = (Some x, xs)"

definition q_dequeue_last :: "'a list \<Rightarrow> 'a option \<times> 'a list" where
  "q_dequeue_last q = (if q = [] then (None, []) else (Some (last q), butlast q))"

definition q_flush :: "('a \<Rightarrow> effect list) \<Rightarrow> 'a list \<Rightarrow> effect list \<times> 'a list" where
  "q_flush release q = (concat (map release q), [])"

section \<open>The post-processor\<close>

text \<open>
  The fields of \<open>QCamera3PostProcessor\<close> that this file reads or writes, together with
  the two locals \<open>is_active\<close> and \<open>needNewSess\<close> of \<open>dataProcessRoutine\<close>, which live
  as long as the dispatcher thread does. The encoder client handle and the session id
  are unsigned.
\<close>

record PostProcessor =
  m_parent :: "channel option"
  mJpegCB :: nat
  mJpegUserData :: nat
  mJpegClientHandle :: nat
  mJpegSessionId :: nat
  m_bThumbnailNeeded :: bool
  m_pReprocChannel :: "channel option"
  mOutputMem :: stream_mem
  m_inputPPQ :: "pp_buffer list"
  m_inputFWKPPQ :: "fwk_input list"
  m_ongoingPPQ :: "pp_job list"
  m_inputJpegQ :: "jpeg_job list"
  m_ongoingJpegQ :: "jpeg_job list"
  m_inputMetaQ :: "super_buf list"
  m_jpegSettingsQ :: "jpeg_settings_t list"
  is_active :: bool
  needNewSess :: bool

text \<open>The state the constructor leaves, for a given parent channel and output memory.\<close>

definition PostProcessor_new :: "channel option \<Rightarrow> stream_mem \<Rightarrow> PostProcessor" where
  "PostProcessor_new ch_ctrl mem =
     \<lparr>m_parent = ch_ctrl, mJpegCB = 0, mJpegUserData = 0, mJpegClientHandle = 0,
      mJpegSessionId = 0, m_bThumbnailNeeded = True, m_pReprocChannel = None,
      mOutputMem = mem, m_inputPPQ = [], m_inputFWKPPQ = [], m_ongoingPPQ = [],
      m_inputJpegQ = [], m_ongoingJpegQ = [], m_inputMetaQ = [], m_jpegSettingsQ = [],
      is_active = False, needNewSess = True\<rparr>"

text \<open>
  What the encoder (\<open>mJpegHandle\<close>), the HAL object and the reprocess channel answer, and
  whether each allocation succeeds: these are outside the post-processor, so every
  dispatcher command carries its own answers. \<open>create_session\<close> receives the client
  handle, the parameters and the current content of the session id cell, and returns the
  status and the new content of the cell. \<open>getExifData\<close> stands for the tag-entry set
  built from the wall clock, the capture metadata and the settings.
\<close>

record answers =
  needJpegRotation :: bool
  destroy_session :: "nat \<Rightarrow> status"
  create_session :: "nat \<Rightarrow> mm_jpeg_encode_params \<Rightarrow> nat \<Rightarrow> status \<times> nat"
  start_job :: "mm_jpeg_encode_job \<Rightarrow> status \<times> nat"
  getExifData :: "metadata_buffer option \<Rightarrow> jpeg_settings_t \<Rightarrow> QCamera3Exif option"
  malloc_debug_params :: bool
  malloc_pp_job_fwk :: bool
  malloc_pp_job :: bool
  malloc_jpeg_job :: bool
  overrideMetadata :: "pp_buffer \<Rightarrow> status"
  doReprocessOffline :: "nat \<Rightarrow> status"
  unmapOfflineBuffers :: "bool \<Rightarrow> status"

section \<open>Encode configuration\<close>

text \<open>
  \<open>getFWKJpegEncodeConfig(encode_parm, frame, jpeg_settings)\<close>: the session parameters
  for a framework-supplied frame. \<open>encode_parm\<close> is a reference: the function returns
  its status, the parameters after the call and the post-processor (whose
  \<open>m_bThumbnailNeeded\<close> it sets).
\<close>

definition getFWKJpegEncodeConfig ::
  "PostProcessor \<Rightarrow> mm_jpeg_encode_params \<Rightarrow> fwk_input option \<Rightarrow> jpeg_settings_t option
     \<Rightarrow> status \<times> mm_jpeg_encode_params \<times> PostProcessor" where
  "getFWKJpegEncodeConfig s encode_parm frame settings =
     (case frame of
        None \<Rightarrow> (BAD_VALUE, encode_parm, s)
      | Some fr \<Rightarrow>
         (case settings of
            None \<Rightarrow> (BAD_VALUE, encode_parm, s)
          | Some js \<Rightarrow>
             let bufSize = getSize (mOutputMem s) (out_buf_index js) in
             if bufSize = BAD_INDEX then (BAD_VALUE, encode_parm, s)
             else
               let thumb = (width (thumbnail_size js) > 0 \<and> height (thumbnail_size js) > 0);
                   s1 = s\<lparr>m_bThumbnailNeeded := thumb\<rparr>;
                   q = jpeg_quality js;
                   main_offset = input_plane_info fr;
                   b0 = \<lparr>buf_index = 0, buf_size = input_frame_len fr,
                         buf_vaddr = input_buffer fr, buf_fd = input_fd fr,
                         buf_format = MM_JPEG_FMT_YUV, buf_offset = main_offset\<rparr>;
                   p1 = encode_parm\<lparr>jpeg_cb := mJpegCB s, userdata := mJpegUserData s,
                          encode_thumbnail := thumb,
                          color_format := getColorfmtFromImgFmt (stream_format fr),
                          quality := (if q \<le> 0 then 85 else q),
                          thumb_quality := jpeg_thumb_quality js,
                          num_src_bufs := 1,
                          src_main_buf := (src_main_buf encode_parm)[0 := b0]\<rparr>;
                   p2 = (if thumb
                         then p1\<lparr>num_tmb_bufs := 1, src_thumb_buf := (src_thumb_buf p1)[0 := b0]\<rparr>
                         else p1);
                   d0 = \<lparr>buf_index = 0, buf_size = bufSize,
                         buf_vaddr = getPtr (mOutputMem s) (out_buf_index js),
                         buf_fd = getFd (mOutputMem s) (out_buf_index js),
                         buf_format = MM_JPEG_FMT_YUV, buf_offset = main_offset\<rparr>
               in (NO_ERROR, p2\<lparr>num_dst_bufs := 1, dest_buf := (dest_buf p2)[0 := d0]\<rparr>, s1)))"

text \<open>
  The two buffer loops of \<open>getJpegEncodeConfig\<close>, over the indices \<open>0 ..< n\<close>: each
  writes the slot's index, asks the stream memory for the size and leaves through
  \<open>on_error\<close> with \<open>BAD_VALUE\<close> when the answer is \<open>BAD_INDEX\<close>.
\<close>

fun fill_bufs ::
  "stream_mem \<Rightarrow> cam_frame_len_offset \<Rightarrow> nat list \<Rightarrow> mm_jpeg_buf list
     \<Rightarrow> status \<times> mm_jpeg_buf list" where
  "fill_bufs mem off [] bufs = (NO_ERROR, bufs)"
| "fill_bufs mem off (i # rest) bufs =
     (let bufs1 = bufs[i := (bufs ! i)\<lparr>buf_index := i\<rparr>];
          bufSize = getSize mem i
      in if bufSize = BAD_INDEX then (BAD_VALUE, bufs1)
         else fill_bufs mem off rest
                (bufs1[i := \<lparr>buf_index = i, buf_size = bufSize, buf_vaddr = getPtr mem i,
                            buf_fd = getFd mem i, buf_format = MM_JPEG_FMT_YUV,
                            buf_offset = off\<rparr>]))"

text \<open>
  \<open>getJpegEncodeConfig(encode_parm, main_stream, jpeg_settings)\<close>: the session parameters
  for a captured frame of \<open>main_stream\<close>. The quality is written before any error exit,
  and \<open>encode_parm\<close> is a reference, so the caller sees it on every path.
\<close>

definition getJpegEncodeConfig ::
  "nat \<Rightarrow> PostProcessor \<Rightarrow> mm_jpeg_encode_params \<Rightarrow> stream \<Rightarrow> jpeg_settings_t
     \<Rightarrow> status \<times> mm_jpeg_encode_params \<times> PostProcessor" where
  "getJpegEncodeConfig MM_JPEG_MAX_BUF s encode_parm main_stream js =
     (let thumb = (width (thumbnail_size js) > 0 \<and> height (thumbnail_size js) > 0);
          s1 = s\<lparr>m_bThumbnailNeeded := thumb\<rparr>;
          q = jpeg_quality js;
          p1 = encode_parm\<lparr>jpeg_cb := mJpegCB s, userdata := mJpegUserData s,
                 encode_thumbnail := thumb,
                 color_format := getColorfmtFromImgFmt (getFormat main_stream),
                 quality := (if q \<le> 0 then 85 else q),
                 thumb_quality := jpeg_thumb_quality js\<rparr>;
          main_offset = getFrameOffset main_stream
      in case getStreamBufs main_stream of
           None \<Rightarrow> (BAD_VALUE, p1, s1)
         | Some pStreamMem \<Rightarrow>
            let n = min (getCnt pStreamMem) MM_JPEG_MAX_BUF;
                (r1, mbufs) = fill_bufs pStreamMem main_offset [0 ..< n] (src_main_buf p1);
                p2 = p1\<lparr>num_src_bufs := n, src_main_buf := mbufs\<rparr>
            in if r1 \<noteq> NO_ERROR then (r1, p2, s1)
               else
                 let (r2, p3) =
                       (if thumb then
                          let (r, tbufs) = fill_bufs pStreamMem (getFrameOffset main_stream)
                                             [0 ..< n] (src_thumb_buf p2)
                          in (r, p2\<lparr>num_tmb_bufs := n, src_thumb_buf := tbufs\<rparr>)
                        else (NO_ERROR, p2))
                 in if r2 \<noteq> NO_ERROR then (r2, p3, s1)
                    else
                      let bufSize = getSize (mOutputMem s) (out_buf_index js) in
                      if bufSize = BAD_INDEX then (BAD_VALUE, p3, s1)
                      else
                        let d0 = \<lparr>buf_index = 0, buf_size = bufSize,
                                  buf_vaddr = getPtr (mOutputMem s) (out_buf_index js),
                                  buf_fd = getFd (mOutputMem s) (out_buf_index js),
                                  buf_format = MM_JPEG_FMT_YUV, buf_offset = main_offset\<rparr>
                        in (NO_ERROR, p3\<lparr>num_dst_bufs := 1, dest_buf := (dest_buf p3)[0 := d0]\<rparr>, s1))"

section \<open>Encode submission\<close>


definition swap_rect :: "cam_rect \<Rightarrow> cam_rect" where
  "swap_rect c = \<lparr>rect_left = rect_top c, rect_top = rect_left c,
                  rect_width = rect_height c, rect_height = rect_width c\<rparr>"

text \<open>Exchange of \<open>offset.mp[0].stride\<close> and \<open>offset.mp[0].scanline\<close> of a buffer. The
  plane list of a zeroed layout is empty, and exchanging two zeros changes nothing.\<close>

definition swap_stride_scanline :: "mm_jpeg_buf \<Rightarrow> mm_jpeg_buf" where
  "swap_stride_scanline b =
     b\<lparr>buf_offset := (buf_offset b)\<lparr>mp :=
         (case mp (buf_offset b) of
            [] \<Rightarrow> []
          | pl # rest \<Rightarrow> pl\<lparr>stride := scanline pl, scanline := stride pl\<rparr> # rest)\<rparr>\<rparr>"

definition map_first :: "('a \<Rightarrow> 'a) \<Rightarrow> 'a list \<Rightarrow> 'a list" where
  "map_first f xs = (case xs of [] \<Rightarrow> [] | x # rest \<Rightarrow> f x # rest)"

text \<open>The start of the \<open>if (needNewSess)\<close> block of both encode functions: an existing
  session is destroyed first, and a failure to destroy it is returned.\<close>

definition destroy_old_session ::
  "answers \<Rightarrow> PostProcessor \<Rightarrow> status \<times> PostProcessor \<times> effect list" where
  "destroy_old_session a s =
     (if 0 < mJpegSessionId s then
        (let ret = destroy_session a (mJpegSessionId s) in
         if ret \<noteq> NO_ERROR then (ret, s, [DestroySession (mJpegSessionId s)])
         else (NO_ERROR, s\<lparr>mJpegSessionId := 0\<rparr>, [DestroySession (mJpegSessionId s)]))
      else (NO_ERROR, s, []))"

text \<open>
  The rest of the \<open>if (needNewSess)\<close> block of \<open>encodeFWKData\<close>: the session parameters
  are built from the frame's reprocess configuration (the status of
  \<open>getFWKJpegEncodeConfig\<close> is not looked at) and the session is created.
\<close>

definition fwk_session_params ::
  "nat \<Rightarrow> PostProcessor \<Rightarrow> fwk_input \<Rightarrow> jpeg_settings_t
     \<Rightarrow> mm_jpeg_encode_params \<times> PostProcessor" where
  "fwk_session_params MM_JPEG_MAX_BUF s recvd_frame js =
     (let src = input_stream_dim recvd_frame;
          dst = output_stream_dim recvd_frame;
          encodeParam0 = (zero_params MM_JPEG_MAX_BUF)
             \<lparr>main_dim := \<lparr>src_dim = src, dst_dim = dst, crop = zero_rect\<rparr>,
              thumb_dim := \<lparr>src_dim = src, dst_dim = thumbnail_size js, crop = zero_rect\<rparr>\<rparr>;
          (r0, encodeParam, s1) =
             getFWKJpegEncodeConfig s encodeParam0 (Some recvd_frame) (Some js)
      in (encodeParam, s1))"

definition fwk_create_session ::
  "nat \<Rightarrow> answers \<Rightarrow> PostProcessor \<Rightarrow> fwk_input \<Rightarrow> jpeg_settings_t
     \<Rightarrow> status \<times> PostProcessor \<times> effect list" where
  "fwk_create_session MM_JPEG_MAX_BUF a s recvd_frame js =
     (let (encodeParam, s1) = fwk_session_params MM_JPEG_MAX_BUF s recvd_frame js;
          (ret, sid) = create_session a (mJpegClientHandle s1) encodeParam (mJpegSessionId s1)
      in (ret, s1\<lparr>mJpegSessionId := sid\<rparr>, [CreateSession encodeParam]))"

text \<open>The job descriptor \<open>encodeFWKData\<close> fills in ("Fill in new job" up to the
  metadata pointer), for the source and destination dimensions of the frame.\<close>

definition fwk_fill_job ::
  "answers \<Rightarrow> PostProcessor \<Rightarrow> fwk_input \<Rightarrow> metadata_buffer \<Rightarrow> jpeg_settings_t
     \<Rightarrow> QCamera3Exif option \<Rightarrow> mm_jpeg_encode_job" where
  "fwk_fill_job a s recvd_frame md js pJpegExif =
     (let src = input_stream_dim recvd_frame;
          dst = output_stream_dim recvd_frame;
          crop0 = zero_rect;
          j0 = zero_encode_job\<lparr>job_session_id := mJpegSessionId s,
                 job_src_index := 0, job_dst_index := 0\<rparr>;
          j1 = (if \<not> needJpegRotation a \<and>
                   (jpeg_orientation js = 90 \<or> jpeg_orientation js = 270)
                then j0\<lparr>job_main_dim :=
                        \<lparr>src_dim = \<lparr>width = height src, height = width src\<rparr>,
                         dst_dim = \<lparr>width = height dst, height = width dst\<rparr>,
                         crop = swap_rect crop0\<rparr>\<rparr>
                else j0\<lparr>job_main_dim := \<lparr>src_dim = src, dst_dim = dst, crop = crop0\<rparr>\<rparr>);
          j2 = j1\<lparr>job_exif := pJpegExif\<rparr>;
          j3 = (if m_bThumbnailNeeded s then
                  (let td = thumbnail_size js;
                       j = (if needJpegRotation a
                            then j2\<lparr>job_rotation := jpeg_orientation js,
                                    job_thumb_dim := (job_thumb_dim j2)\<lparr>dst_dim := td\<rparr>\<rparr>
                            else if jpeg_orientation js = 90 \<or> jpeg_orientation js = 270
                            then j2\<lparr>job_thumb_dim := (job_thumb_dim j2)
                                      \<lparr>dst_dim := \<lparr>width = height td, height = width td\<rparr>\<rparr>\<rparr>
                            else j2\<lparr>job_thumb_dim := (job_thumb_dim j2)\<lparr>dst_dim := td\<rparr>\<rparr>)
                   in j\<lparr>job_thumb_dim := (job_thumb_dim j)\<lparr>src_dim := src, crop := zero_rect\<rparr>,
                        job_thumb_index := 0\<rparr>)
                else j2)
      in j3\<lparr>job_p_metadata := Some md\<rparr>)"

text \<open>
  \<open>encodeFWKData(jpeg_job_data, needNewSess)\<close>. The result is the status, the job
  structure after the call, the post-processor, the flag (a reference parameter) and the
  effects; \<open>None\<close> stands for the dereference of a NULL \<open>m_parent\<close>, which the function
  does not guard.
\<close>

definition encodeFWKData ::
  "nat \<Rightarrow> answers \<Rightarrow> PostProcessor \<Rightarrow> jpeg_job option \<Rightarrow> bool
     \<Rightarrow> (status \<times> jpeg_job option \<times> PostProcessor \<times> bool \<times> effect list) option" where
  "encodeFWKData MM_JPEG_MAX_BUF a s jpeg_job_data nns =
     (case jpeg_job_data of
        None \<Rightarrow> Some (BAD_VALUE, None, s, nns, [])
      | Some job \<Rightarrow>
     (case fwk_frame job of
        None \<Rightarrow> Some (BAD_VALUE, Some job, s, nns, [])
      | Some recvd_frame \<Rightarrow>
     (case metadata job of
        None \<Rightarrow> Some (BAD_VALUE, Some job, s, nns, [])
      | Some md \<Rightarrow>
     (case jpeg_settings job of
        None \<Rightarrow> Some (BAD_VALUE, Some job, s, nns, [])
      | Some js \<Rightarrow>
        if src_frame job \<noteq> None \<and> src_frame job \<noteq> None
        then Some (BAD_VALUE, Some job, s, nns, [])
        else
     (case m_parent s of
        None \<Rightarrow> None
      | Some parent \<Rightarrow>
        if mJpegClientHandle s \<le> 0 then Some (UNKNOWN_ERROR, Some job, s, nns, [])
        else
          let (rs, s2, nns2, es) =
                (if nns then
                   (let (rd, s1, ed) = destroy_old_session a s in
                    if rd \<noteq> NO_ERROR then (rd, s1, nns, ed)
                    else
                      (let (rc, s2, ec) = fwk_create_session MM_JPEG_MAX_BUF a s1 recvd_frame js
                       in if rc \<noteq> NO_ERROR then (rc, s2, nns, ed @ ec)
                          else (NO_ERROR, s2, False, ed @ ec)))
                 else (NO_ERROR, s, nns, []))
          in if rs \<noteq> NO_ERROR then Some (rs, Some job, s2, nns2, es)
             else
               let pJpegExif = getExifData a (Some md) js;
                   job1 = job\<lparr>pJpegExifObj := pJpegExif\<rparr>;
                   jpg_job = fwk_fill_job a s2 recvd_frame md js pJpegExif;
                   (ret, jid) = start_job a jpg_job;
                   job2 = (if ret = NO_ERROR then job1\<lparr>jobId := jid\<rparr> else job1)
               in Some (ret, Some job2, s2, nns2,
                        es @ [StartJob job jpg_job (m_ongoingJpegQ s2)]))))))"

text \<open>The loop of \<open>encodeData\<close> that looks for the snapshot frame among the buffers of
  the received frame: the last buffer whose stream is of type SNAPSHOT or OFFLINE_PROC
  wins (the \<open>break\<close> leaves the \<open>switch\<close> only).\<close>

fun find_main_frame ::
  "channel \<Rightarrow> buf_def list \<Rightarrow> (stream \<times> buf_def) option \<Rightarrow> (stream \<times> buf_def) option" where
  "find_main_frame ch [] acc = acc"
| "find_main_frame ch (b # bs) acc =
     (case getStreamByHandle ch (bd_stream_id b) of
        None \<Rightarrow> find_main_frame ch bs acc
      | Some srcStream \<Rightarrow>
         (case getMyType srcStream of
            CAM_STREAM_TYPE_OTHER _ \<Rightarrow> find_main_frame ch bs acc
          | _ \<Rightarrow> find_main_frame ch bs (Some (srcStream, b))))"

text \<open>
  The rest of the \<open>if (needNewSess)\<close> block of \<open>encodeData\<close>: the session parameters come
  from \<open>getJpegEncodeConfig\<close> (its status is not looked at); for a 90 or 270 degree
  request that the encoder does not rotate itself, the source width and height of main
  image and thumbnail are exchanged, and so are stride and scan-line count of the first
  plane of the first main and thumbnail source buffer.
\<close>

definition data_session_params ::
  "nat \<Rightarrow> answers \<Rightarrow> PostProcessor \<Rightarrow> stream \<Rightarrow> jpeg_settings_t \<Rightarrow> cam_dimension
     \<Rightarrow> cam_dimension \<Rightarrow> mm_jpeg_encode_params \<times> PostProcessor" where
  "data_session_params MM_JPEG_MAX_BUF a s main_stream js src dst =
     (let (r0, p, s1) = getJpegEncodeConfig MM_JPEG_MAX_BUF s (zero_params MM_JPEG_MAX_BUF)
                          main_stream js;
          p1 = (if \<not> needJpegRotation a \<and>
                   (jpeg_orientation js = 90 \<or> jpeg_orientation js = 270)
                then p\<lparr>main_dim := (main_dim p)
                          \<lparr>src_dim := \<lparr>width = height src, height = width src\<rparr>\<rparr>,
                       thumb_dim := (thumb_dim p)
                          \<lparr>src_dim := \<lparr>width = height src, height = width src\<rparr>\<rparr>,
                       src_main_buf := map_first swap_stride_scanline (src_main_buf p),
                       src_thumb_buf := map_first swap_stride_scanline (src_thumb_buf p)\<rparr>
                else p\<lparr>main_dim := (main_dim p)\<lparr>src_dim := src\<rparr>,
                       thumb_dim := (thumb_dim p)\<lparr>src_dim := src\<rparr>\<rparr>);
          p2 = p1\<lparr>main_dim := (main_dim p1)\<lparr>dst_dim := dst\<rparr>,
                  thumb_dim := (thumb_dim p1)\<lparr>dst_dim := thumbnail_size js\<rparr>\<rparr>;
          p3 = (if needJpegRotation a then p2\<lparr>rotation := jpeg_orientation js\<rparr> else p2)
      in (p3, s1))"

definition data_create_session ::
  "nat \<Rightarrow> answers \<Rightarrow> PostProcessor \<Rightarrow> stream \<Rightarrow> jpeg_settings_t \<Rightarrow> cam_dimension
     \<Rightarrow> cam_dimension \<Rightarrow> status \<times> PostProcessor \<times> effect list" where
  "data_create_session MM_JPEG_MAX_BUF a s main_stream js src dst =
     (let (encodeParam, s1) = data_session_params MM_JPEG_MAX_BUF a s main_stream js src dst;
          (ret, sid) = create_session a (mJpegClientHandle s1) encodeParam (mJpegSessionId s1)
      in (ret, s1\<lparr>mJpegSessionId := sid\<rparr>, [CreateSession encodeParam]))"

text \<open>The job descriptor \<open>encodeData\<close> fills in, up to the thumbnail block.\<close>

definition data_fill_job ::
  "answers \<Rightarrow> PostProcessor \<Rightarrow> buf_def \<Rightarrow> jpeg_settings_t \<Rightarrow> cam_dimension \<Rightarrow> cam_dimension
     \<Rightarrow> QCamera3Exif option \<Rightarrow> mm_jpeg_encode_job" where
  "data_fill_job a s main_frame js src dst pJpegExif =
     (let crop0 = zero_rect;
          rotate = (\<not> needJpegRotation a \<and>
                    (jpeg_orientation js = 90 \<or> jpeg_orientation js = 270));
          j0 = zero_encode_job\<lparr>job_session_id := mJpegSessionId s,
                 job_src_index := bd_buf_idx main_frame, job_dst_index := 0\<rparr>;
          j1 = (if needJpegRotation a then j0\<lparr>job_rotation := jpeg_orientation js\<rparr> else j0);
          j2 = (if rotate
                then j1\<lparr>job_main_dim :=
                        \<lparr>src_dim = \<lparr>width = height src, height = width src\<rparr>,
                         dst_dim = \<lparr>width = height dst, height = width dst\<rparr>,
                         crop = swap_rect crop0\<rparr>\<rparr>
                else j1\<lparr>job_main_dim := \<lparr>src_dim = src, dst_dim = dst, crop = crop0\<rparr>\<rparr>);
          j3 = j2\<lparr>job_exif := pJpegExif\<rparr>
      in if m_bThumbnailNeeded s then
           (let td = thumbnail_size js;
                tdim = (if rotate
                        then \<lparr>src_dim = \<lparr>width = height src, height = width src\<rparr>,
                              dst_dim = \<lparr>width = height td, height = width td\<rparr>,
                              crop = zero_rect\<rparr>
                        else \<lparr>src_dim = src, dst_dim = td, crop = zero_rect\<rparr>)
            in j3\<lparr>job_thumb_dim := tdim, job_thumb_index := bd_buf_idx main_frame\<rparr>)
         else j3)"

text \<open>
  The search of \<open>encodeData\<close> for the channel the received frame belongs to (first the
  picture channel, then the reprocess channel) and for the snapshot frame in it; the
  status is the one \<open>encodeData\<close> returns when the search fails.
\<close>

definition lookup_main_frame ::
  "PostProcessor \<Rightarrow> channel \<Rightarrow> super_buf \<Rightarrow> status + (stream \<times> buf_def)" where
  "lookup_main_frame s parent recvd_frame =
     (case (if getMyHandle parent = sb_ch_id recvd_frame then Some parent
            else (case m_pReprocChannel s of
                    None \<Rightarrow> None
                  | Some rch \<Rightarrow>
                      if getMyHandle rch = sb_ch_id recvd_frame then Some rch else None)) of
        None \<Rightarrow> Inl BAD_VALUE
      | Some srcChannel \<Rightarrow>
          (case find_main_frame srcChannel (sb_bufs recvd_frame) None of
             None \<Rightarrow> Inl BAD_VALUE
           | Some (main_stream, main_frame) \<Rightarrow>
               if \<not> bd_mem_info main_frame then Inl NO_MEMORY
               else Inr (main_stream, main_frame)))"

text \<open>
  \<open>encodeData(jpeg_job_data, needNewSess)\<close>, with the same result shape as
  \<open>encodeFWKData\<close>. \<open>None\<close> stands for the dereference of a NULL source frame or of NULL
  jpeg settings, neither of which the function guards.
\<close>

definition encodeData ::
  "nat \<Rightarrow> answers \<Rightarrow> PostProcessor \<Rightarrow> jpeg_job \<Rightarrow> bool
     \<Rightarrow> (status \<times> jpeg_job option \<times> PostProcessor \<times> bool \<times> effect list) option" where
  "encodeData MM_JPEG_MAX_BUF a s job nns =
     (case m_parent s of
        None \<Rightarrow> Some (BAD_VALUE, Some job, s, nns, [])
      | Some parent \<Rightarrow>
     (case src_frame job of
        None \<Rightarrow> None
      | Some recvd_frame \<Rightarrow>
     (case lookup_main_frame s parent recvd_frame of
        Inl err \<Rightarrow> Some (err, Some job, s, nns, [])
      | Inr (main_stream, main_frame) \<Rightarrow>
          let e0 = [CleanInvalidateCache (bd_buf_idx main_frame)] in
          if mJpegClientHandle s \<le> 0 then Some (UNKNOWN_ERROR, Some job, s, nns, e0)
          else
            let src = getFrameDimension main_stream;
                (rsz, dst) = getStreamSize parent
            in if rsz \<noteq> NO_ERROR then Some (UNKNOWN_ERROR, Some job, s, nns, e0)
               else
                 let (rd, s1, ed) = (if nns then destroy_old_session a s else (NO_ERROR, s, []))
                 in if rd \<noteq> NO_ERROR then Some (rd, Some job, s1, nns, e0 @ ed)
                    else
     (case jpeg_settings job of
        None \<Rightarrow> None
      | Some js \<Rightarrow>
          let (rc, s2, ec) =
                (if nns then data_create_session MM_JPEG_MAX_BUF a s1 main_stream js src dst
                 else (NO_ERROR, s1, []))
          in if rc \<noteq> NO_ERROR then Some (rc, Some job, s2, nns, e0 @ ed @ ec)
             else
               let nns2 = (if nns then False else nns);
                   pJpegExif = getExifData a (metadata job) js;
                   job1 = job\<lparr>pJpegExifObj := pJpegExif\<rparr>;
                   jpg0 = data_fill_job a s2 main_frame js src dst pJpegExif
               in if \<not> malloc_debug_params a
                  then Some (NO_MEMORY, Some job1, s2, nns2, e0 @ ed @ ec)
                  else
                    let jpg_job = (case metadata job of
                                     None \<Rightarrow> jpg0
                                   | Some md \<Rightarrow> jpg0\<lparr>job_p_metadata := Some md\<rparr>);
                        (ret, jid) = start_job a jpg_job;
                        job2 = (if ret = NO_ERROR then job1\<lparr>jobId := jid\<rparr> else job1)
                    in Some (ret, Some job2, s2, nns2,
                             e0 @ ed @ ec @ [StartJob job jpg_job (m_ongoingJpegQ s2)])))))"

section \<open>Release routines\<close>

text \<open>
  Each release routine is given by the effects it has. The routines also reset the
  pointer fields of the structure they release; the structure is freed by the caller (or
  by the queue) right after, so that write is not observable and is left out.
\<close>

definition releaseSuperBuf :: "PostProcessor \<Rightarrow> super_buf option \<Rightarrow> effect list" where
  "releaseSuperBuf s super_buf =
     (case super_buf of
        None \<Rightarrow> []
      | Some b \<Rightarrow> (if m_parent s \<noteq> None then [ParentBufDone b] else []))"

definition releaseJpegJobData :: "PostProcessor \<Rightarrow> jpeg_job option \<Rightarrow> effect list" where
  "releaseJpegJobData s job_opt =
     (case job_opt of
        None \<Rightarrow> []
      | Some job \<Rightarrow>
          (case src_reproc_frame job of None \<Rightarrow> [] | Some f \<Rightarrow> [Free (SuperBufObj f)])
          @ (case src_frame job of
               None \<Rightarrow> []
             | Some f \<Rightarrow>
                 (if m_pReprocChannel s \<noteq> None then [ReprocBufDone f] else [])
                 @ [Free (SuperBufObj f)])
          @ (case fwk_src_buffer job of
               Some b \<Rightarrow> [Free (FwkFrameObj b)]
             | None \<Rightarrow>
                 (case src_metadata job of
                    None \<Rightarrow> []
                  | Some m \<Rightarrow> [MetadataBufDone m, Free (SuperBufObj m)]))
          @ (case fwk_frame job of None \<Rightarrow> [] | Some f \<Rightarrow> [Free (FwkFrameObj f)])
          @ (case pJpegExifObj job of None \<Rightarrow> [] | Some e \<Rightarrow> [Free (ExifObj e)])
          @ (case jpeg_settings job of None \<Rightarrow> [] | Some js \<Rightarrow> [Free (SettingsObj js)]))
     @ [SendCmd CAMERA_CMD_TYPE_DO_NEXT_JOB]"

definition releasePPJobData :: "PostProcessor \<Rightarrow> pp_job option \<Rightarrow> effect list" where
  "releasePPJobData s job_opt =
     (case job_opt of
        None \<Rightarrow> []
      | Some job \<Rightarrow>
          (case pp_src_frame job of
             None \<Rightarrow> []
           | Some f \<Rightarrow>
               [Free (SuperBufObj f)]
               @ (case pp_src_metadata job of
                    None \<Rightarrow> []
                  | Some m \<Rightarrow> [MetadataBufDone m, Free (SuperBufObj m)]))
          @ (case pp_fwk_src_frame job of None \<Rightarrow> [] | Some f \<Rightarrow> [Free (FwkFrameObj f)]))
     @ [SendCmd CAMERA_CMD_TYPE_DO_NEXT_JOB]"

text \<open>The release callbacks the constructor gives to the queues.\<close>

definition releasePPInputData :: "PostProcessor \<Rightarrow> pp_buffer \<Rightarrow> effect list" where
  "releasePPInputData s buf =
     (case pp_input buf of
        None \<Rightarrow> []
      | Some f \<Rightarrow> releaseSuperBuf s (Some f) @ [Free (SuperBufObj f)])"

definition releaseMetadata :: "PostProcessor \<Rightarrow> super_buf \<Rightarrow> effect list" where
  "releaseMetadata s m = [MetadataBufDone m]"

definition releaseJpegData :: "PostProcessor \<Rightarrow> jpeg_job \<Rightarrow> effect list" where
  "releaseJpegData s job = releaseJpegJobData s (Some job)"

definition releaseOngoingPPData :: "PostProcessor \<Rightarrow> pp_job \<Rightarrow> effect list" where
  "releaseOngoingPPData s pp_data =
     (case pp_src_frame pp_data of None \<Rightarrow> [] | Some f \<Rightarrow> releaseSuperBuf s (Some f))
     @ releasePPJobData s (Some pp_data)"

section \<open>Producers and lookups\<close>

text \<open>\<open>processData(input, output, frameNumber)\<close>: a captured frame arrives.
  \<open>malloc_ok\<close> says whether the buffer record could be allocated.\<close>

definition processData ::
  "bool \<Rightarrow> PostProcessor \<Rightarrow> super_buf option \<Rightarrow> nat option \<Rightarrow> nat
     \<Rightarrow> status \<times> PostProcessor \<times> effect list" where
  "processData malloc_ok s inp outp frameNumber =
     (if \<not> malloc_ok then (NO_MEMORY, s, [])
      else
        let pp_buf = \<lparr>pp_input = inp, pp_output = outp, pp_frameNumber = frameNumber\<rparr>;
            s1 = s\<lparr>m_inputPPQ := q_enqueue (m_inputPPQ s) pp_buf\<rparr>
        in (NO_ERROR, s1,
            if \<not> q_isEmpty (m_inputMetaQ s1) then [SendCmd CAMERA_CMD_TYPE_DO_NEXT_JOB]
            else []))"

text \<open>\<open>processData(frame)\<close>: a framework frame arrives; it goes to the reprocess input
  queue, or, when it needs no reprocessing, straight into a new jpeg job.\<close>

definition processFwkData ::
  "bool \<Rightarrow> PostProcessor \<Rightarrow> fwk_input \<Rightarrow> status \<times> PostProcessor \<times> effect list" where
  "processFwkData malloc_ok s frame =
     (if reprocess_needed frame
      then (NO_ERROR, s\<lparr>m_inputFWKPPQ := q_enqueue (m_inputFWKPPQ s) frame\<rparr>,
            [SendCmd CAMERA_CMD_TYPE_DO_NEXT_JOB])
      else
        (case q_dequeue (m_jpegSettingsQ s) of
           (None, q) \<Rightarrow> (BAD_VALUE, s\<lparr>m_jpegSettingsQ := q\<rparr>, [])
         | (Some js, q) \<Rightarrow>
             if \<not> malloc_ok then (NO_MEMORY, s\<lparr>m_jpegSettingsQ := q\<rparr>, [])
             else
               let jpeg_job = zero_jpeg_job\<lparr>fwk_frame := Some frame,
                                jpeg_settings := Some js,
                                metadata := fwk_metadata_buffer frame\<rparr>
               in (NO_ERROR,
                   s\<lparr>m_jpegSettingsQ := q,
                     m_inputJpegQ := q_enqueue (m_inputJpegQ s) jpeg_job\<rparr>,
                   [SendCmd CAMERA_CMD_TYPE_DO_NEXT_JOB])))"

definition processPPMetadata ::
  "PostProcessor \<Rightarrow> super_buf \<Rightarrow> status \<times> PostProcessor \<times> effect list" where
  "processPPMetadata s reproc_meta =
     (let s1 = s\<lparr>m_inputMetaQ := q_enqueue (m_inputMetaQ s) reproc_meta\<rparr>
      in (NO_ERROR, s1,
          if \<not> q_isEmpty (m_inputPPQ s1) then [SendCmd CAMERA_CMD_TYPE_DO_NEXT_JOB] else []))"

definition processJpegSettingData ::
  "PostProcessor \<Rightarrow> jpeg_settings_t option \<Rightarrow> status \<times> PostProcessor \<times> effect list" where
  "processJpegSettingData s settings =
     (case settings of
        None \<Rightarrow> (BAD_VALUE, s, [])
      | Some js \<Rightarrow> (NO_ERROR, s\<lparr>m_jpegSettingsQ := q_enqueue (m_jpegSettingsQ s) js\<rparr>, []))"

text \<open>\<open>processPPData(frame)\<close>: a frame comes back from reprocessing; the oldest ongoing
  postprocess job becomes a jpeg job on the jpeg input queue.\<close>

definition processPPData ::
  "bool \<Rightarrow> PostProcessor \<Rightarrow> super_buf option \<Rightarrow> status \<times> PostProcessor \<times> effect list" where
  "processPPData malloc_ok s frame =
     (case q_dequeue (m_ongoingPPQ s) of
        (None, q) \<Rightarrow> (BAD_VALUE, s\<lparr>m_ongoingPPQ := q\<rparr>, [])
      | (Some job, q) \<Rightarrow>
          let s1 = s\<lparr>m_ongoingPPQ := q\<rparr> in
          if pp_src_frame job = None \<and> pp_fwk_src_frame job = None then (BAD_VALUE, s1, [])
          else if pp_jpeg_settings job = None then (BAD_VALUE, s1, [])
          else if \<not> malloc_ok then (NO_MEMORY, s1, [])
          else
            let j0 = zero_jpeg_job\<lparr>src_frame := frame\<rparr>;
                j1 = (if frame \<noteq> pp_src_frame job
                      then j0\<lparr>src_reproc_frame := pp_src_frame job\<rparr> else j0);
                j2 = (case pp_fwk_src_frame job of
                        None \<Rightarrow> j1\<lparr>metadata := pp_metadata job\<rparr>
                      | Some f \<Rightarrow> j1\<lparr>metadata := fwk_metadata_buffer f,
                                      fwk_src_buffer := Some f\<rparr>);
                j3 = j2\<lparr>src_metadata := pp_src_metadata job,
                        jpeg_settings := pp_jpeg_settings job\<rparr>
            in (NO_ERROR, s1\<lparr>m_inputJpegQ := q_enqueue (m_inputJpegQ s1) j3\<rparr>,
                [Free (PPJobObj job), SendCmd CAMERA_CMD_TYPE_DO_NEXT_JOB]))"

definition dequeuePPJob :: "PostProcessor \<Rightarrow> nat \<Rightarrow> pp_job option \<times> PostProcessor" where
  "dequeuePPJob s frameNumber =
     (case q_dequeue (m_ongoingPPQ s) of (j, q) \<Rightarrow> (j, s\<lparr>m_ongoingPPQ := q\<rparr>))"

text \<open>\<open>findJpegJobByJobId(jobId)\<close>: "currently only one jpeg job ongoing, so simply
  dequeue the head".\<close>

definition findJpegJobByJobId :: "PostProcessor \<Rightarrow> nat \<Rightarrow> jpeg_job option \<times> PostProcessor" where
  "findJpegJobByJobId s jid =
     (if jid = 0 then (None, s)
      else (case q_dequeue (m_ongoingJpegQ s) of (j, q) \<Rightarrow> (j, s\<lparr>m_ongoingJpegQ := q\<rparr>)))"

section \<open>The dispatcher\<close>

text \<open>\<open>CAMERA_CMD_TYPE_START_DATA_PROC\<close>.\<close>

definition cmd_start :: "PostProcessor \<Rightarrow> PostProcessor \<times> effect list" where
  "cmd_start s =
     (s\<lparr>is_active := True, needNewSess := True,
        m_ongoingPPQ := q_init (m_ongoingPPQ s),
        m_inputJpegQ := q_init (m_inputJpegQ s),
        m_inputPPQ := q_init (m_inputPPQ s),
        m_inputFWKPPQ := q_init (m_inputFWKPPQ s),
        m_inputMetaQ := q_init (m_inputMetaQ s)\<rparr>, [SyncPost])"

text \<open>The loop "cancel all ongoing jpeg jobs": it dequeues until the ongoing jpeg queue
  is empty, so it visits the queued jobs oldest first.\<close>

fun abort_ongoing :: "PostProcessor \<Rightarrow> jpeg_job list \<Rightarrow> effect list" where
  "abort_ongoing s [] = []"
| "abort_ongoing s (jpeg_job # rest) =
     AbortJob (jobId jpeg_job) # releaseJpegJobData s (Some jpeg_job)
     @ [Free (JpegJobObj jpeg_job)] @ abort_ongoing s rest"

text \<open>\<open>CAMERA_CMD_TYPE_STOP_DATA_PROC\<close>. The framework input queue and the settings
  queue were constructed without a release routine.\<close>

definition cmd_stop :: "PostProcessor \<Rightarrow> PostProcessor \<times> effect list" where
  "cmd_stop s =
     (let s1 = s\<lparr>is_active := False\<rparr>;
          e1 = abort_ongoing s1 (m_ongoingJpegQ s1);
          s2 = s1\<lparr>m_ongoingJpegQ := []\<rparr>;
          e2 = (if 0 < mJpegSessionId s2 then [DestroySession (mJpegSessionId s2)] else []);
          s3 = (if 0 < mJpegSessionId s2 then s2\<lparr>mJpegSessionId := 0\<rparr> else s2);
          s4 = s3\<lparr>needNewSess := True\<rparr>;
          (e3, q3) = q_flush (releaseOngoingPPData s4) (m_ongoingPPQ s4);
          (e4, q4) = q_flush (releaseJpegData s4) (m_inputJpegQ s4);
          (e5, q5) = q_flush (releasePPInputData s4) (m_inputPPQ s4);
          (e6, q6) = q_flush (\<lambda>x. []) (m_inputFWKPPQ s4);
          (e7, q7) = q_flush (releaseMetadata s4) (m_inputMetaQ s4)
      in (s4\<lparr>m_ongoingPPQ := q3, m_inputJpegQ := q4, m_inputPPQ := q5,
             m_inputFWKPPQ := q6, m_inputMetaQ := q7\<rparr>,
          e1 @ e2 @ e3 @ e4 @ e5 @ e6 @ e7 @ [SyncPost]))"

text \<open>
  \<open>CAMERA_CMD_TYPE_DO_NEXT_JOB\<close>, active, first part: when no jpeg job is ongoing, the
  next jpeg job is taken from the input queue, put on the ongoing queue and handed to
  the encode function; when that fails the job is taken off again and released. The
  queue holds a pointer to the job structure, so what the encode function wrote into the
  job (job id, tag entries) is visible in the queue: the queued copy is replaced.
\<close>

definition do_next_jpeg ::
  "nat \<Rightarrow> answers \<Rightarrow> PostProcessor \<Rightarrow> (PostProcessor \<times> effect list) option" where
  "do_next_jpeg MM_JPEG_MAX_BUF a s =
     (if q_isEmpty (m_ongoingJpegQ s) then
        (case q_dequeue (m_inputJpegQ s) of
           (None, inq) \<Rightarrow> Some (s\<lparr>m_inputJpegQ := inq\<rparr>, [])
         | (Some jpeg_job, inq) \<Rightarrow>
             let s1 = s\<lparr>m_inputJpegQ := inq,
                        m_ongoingJpegQ := q_enqueue (m_ongoingJpegQ s) jpeg_job\<rparr>
             in (case (if fwk_frame jpeg_job \<noteq> None
                       then encodeFWKData MM_JPEG_MAX_BUF a s1 (Some jpeg_job) (needNewSess s1)
                       else encodeData MM_JPEG_MAX_BUF a s1 jpeg_job (needNewSess s1)) of
                   None \<Rightarrow> None
                 | Some (ret, job', s2, nns, eff) \<Rightarrow>
                     let s3 = s2\<lparr>needNewSess := nns\<rparr> in
                     if ret \<noteq> NO_ERROR then
                       Some (s3\<lparr>m_ongoingJpegQ := snd (q_dequeue_last (m_ongoingJpegQ s3))\<rparr>,
                             eff @ releaseJpegJobData s3 job'
                                 @ (case job' of None \<Rightarrow> [] | Some j \<Rightarrow> [Free (JpegJobObj j)]))
                     else
                       Some (s3\<lparr>m_ongoingJpegQ :=
                                 (case job' of
                                    None \<Rightarrow> m_ongoingJpegQ s3
                                  | Some j \<Rightarrow> butlast (m_ongoingJpegQ s3) @ [j])\<rparr>, eff)))
      else Some (s, []))"

text \<open>Second part: a pending framework frame is paired with the next settings and sent
  to the reprocess channel.\<close>

definition do_next_fwk_pp :: "answers \<Rightarrow> PostProcessor \<Rightarrow> PostProcessor \<times> effect list" where
  "do_next_fwk_pp a s =
     (if \<not> q_isEmpty (m_inputFWKPPQ s) then
        (case q_dequeue (m_inputFWKPPQ s) of
           (None, fq) \<Rightarrow> (s\<lparr>m_inputFWKPPQ := fq\<rparr>, [])
         | (Some frame, fq) \<Rightarrow>
             let (settings, sq) = q_dequeue (m_jpegSettingsQ s);
                 s1 = s\<lparr>m_inputFWKPPQ := fq, m_jpegSettingsQ := sq\<rparr>
             in if malloc_pp_job_fwk a then
                  (let pp = zero_pp_job\<lparr>pp_jpeg_settings := settings\<rparr> in
                   case m_pReprocChannel s1 of
                     Some rch \<Rightarrow>
                       let pp1 = pp\<lparr>pp_fwk_src_frame := Some frame\<rparr>;
                           s2 = s1\<lparr>m_ongoingPPQ := q_enqueue (m_ongoingPPQ s1) pp1\<rparr>;
                           ret = doReprocessOffline a (fwk_frameNumber frame);
                           e = [OverrideFwkMetadata frame,
                                DoReprocessOffline (fwk_frameNumber frame)]
                       in if ret \<noteq> NO_ERROR
                          then (s2\<lparr>m_ongoingPPQ := snd (q_dequeue_last (m_ongoingPPQ s2))\<rparr>,
                                e @ [Free (PPJobObj pp1), Free (FwkFrameObj frame)])
                          else (s2, e)
                   | None \<Rightarrow> (s1, [Free (PPJobObj pp), Free (FwkFrameObj frame)]))
                else (s1, [Free (FwkFrameObj frame)]))
      else (s, []))"

text \<open>
  Third part: when a captured frame and a metadata frame are both pending, one of each
  and the next settings are dequeued and form a postprocess job, which goes to the
  reprocess channel (or, without a channel, straight to \<open>processPPData\<close>). When that
  fails (\<open>ret\<close> is not 0) the job structure is freed, the frame is returned to the
  parent channel and freed, and the metadata frame is released and freed. \<open>None\<close> stands
  for the dereference of a NULL frame record.
\<close>

definition do_next_pp ::
  "answers \<Rightarrow> PostProcessor \<Rightarrow> (PostProcessor \<times> effect list) option" where
  "do_next_pp a s =
     (if \<not> q_isEmpty (m_inputPPQ s) \<and> \<not> q_isEmpty (m_inputMetaQ s) then
        (let (pp_buf, pq) = q_dequeue (m_inputPPQ s);
             (meta_buffer, mq) = q_dequeue (m_inputMetaQ s);
             (settings, sq) = q_dequeue (m_jpegSettingsQ s);
             s1 = s\<lparr>m_inputPPQ := pq, m_inputMetaQ := mq, m_jpegSettingsQ := sq\<rparr>;
             submitted =
               (if \<not> malloc_pp_job a then Some (- 1, None, s1, [])
                else
                  (case meta_buffer of
                     None \<Rightarrow> Some (- 1, Some zero_pp_job, s1, [])
                   | Some meta \<Rightarrow>
                      (case pp_buf of
                         None \<Rightarrow> None
                       | Some ppb \<Rightarrow>
                           let job = zero_pp_job
                                 \<lparr>pp_src_frame := pp_input ppb,
                                  pp_src_metadata := Some meta,
                                  pp_metadata := (case sb_bufs meta of
                                                    [] \<Rightarrow> None
                                                  | b # rest \<Rightarrow> Some (bd_buffer b)),
                                  pp_jpeg_settings := settings\<rparr>;
                               s2 = s1\<lparr>m_ongoingPPQ := q_enqueue (m_ongoingPPQ s1) job\<rparr>
                           in (case m_pReprocChannel s2 of
                                 Some rch \<Rightarrow>
                                   let r1 = overrideMetadata a ppb in
                                   if r1 = NO_ERROR then
                                     (let r2 = doReprocessOffline a (pp_frameNumber ppb);
                                          e = [OverrideMetadata ppb,
                                               DoReprocessOffline (pp_frameNumber ppb)]
                                      in if r2 \<noteq> NO_ERROR
                                         then Some (r2, Some job,
                                                s2\<lparr>m_ongoingPPQ :=
                                                     snd (q_dequeue_last (m_ongoingPPQ s2))\<rparr>, e)
                                         else Some (r2, Some job, s2, e))
                                   else Some (r1, Some job, s2, [OverrideMetadata ppb])
                               | None \<Rightarrow>
                                   (case processPPData (malloc_jpeg_job a) s2 (pp_input ppb) of
                                      (r, s3, e) \<Rightarrow> Some (r, Some job, s3, e))))))
         in case submitted of
              None \<Rightarrow> None
            | Some (ret, job_opt, s2, e) \<Rightarrow>
                if ret \<noteq> 0 then
                  Some (s2, e
                    @ (case job_opt of None \<Rightarrow> [] | Some j \<Rightarrow> [Free (PPJobObj j)])
                    @ (case pp_buf of
                         None \<Rightarrow> []
                       | Some b \<Rightarrow>
                           (case pp_input b of
                              None \<Rightarrow> []
                            | Some f \<Rightarrow> releaseSuperBuf s2 (Some f) @ [Free (SuperBufObj f)])
                           @ [Free (PPBufferObj b)])
                    @ (case meta_buffer of
                         None \<Rightarrow> []
                       | Some m \<Rightarrow> [MetadataBufDone m, Free (SuperBufObj m)]))
                else
                  Some (s2, e @ (case pp_buf of None \<Rightarrow> [] | Some b \<Rightarrow> [Free (PPBufferObj b)])))
      else Some (s, []))"

text \<open>\<open>CAMERA_CMD_TYPE_DO_NEXT_JOB\<close> while not active ("not active, simply return buf
  and do no op"): one item is taken from each input queue.\<close>

definition do_next_inactive :: "PostProcessor \<Rightarrow> PostProcessor \<times> effect list" where
  "do_next_inactive s =
     (let (jpeg_job, jq) = q_dequeue (m_inputJpegQ s);
          e1 = (case jpeg_job of None \<Rightarrow> [] | Some j \<Rightarrow> [Free (JpegJobObj j)]);
          (pp_buf, pq) = q_dequeue (m_inputPPQ s);
          e2 = (case pp_buf of
                  None \<Rightarrow> []
                | Some b \<Rightarrow>
                    (case pp_input b of
                       None \<Rightarrow> []
                     | Some f \<Rightarrow> releaseSuperBuf s (Some f) @ [Free (SuperBufObj f)])
                    @ [Free (PPBufferObj b)]);
          (meta, mq) = q_dequeue (m_inputMetaQ s);
          e3 = (case meta of None \<Rightarrow> [] | Some m \<Rightarrow> [MetadataBufDone m, Free (SuperBufObj m)]);
          (fwk, fq) = q_dequeue (m_inputFWKPPQ s);
          e4 = (case fwk of None \<Rightarrow> [] | Some f \<Rightarrow> [Free (FwkFrameObj f)])
      in (s\<lparr>m_inputJpegQ := jq, m_inputPPQ := pq, m_inputMetaQ := mq, m_inputFWKPPQ := fq\<rparr>,
          e1 @ e2 @ e3 @ e4))"

definition cmd_do_next_job ::
  "nat \<Rightarrow> answers \<Rightarrow> PostProcessor \<Rightarrow> (PostProcessor \<times> effect list) option" where
  "cmd_do_next_job MM_JPEG_MAX_BUF a s =
     (let s0 = s\<lparr>needNewSess := True\<rparr> in
      if is_active s0 then
        (case do_next_jpeg MM_JPEG_MAX_BUF a s0 of
           None \<Rightarrow> None
         | Some (s1, e1) \<Rightarrow>
             (case do_next_fwk_pp a s1 of
                (s2, e2) \<Rightarrow>
                  (case do_next_pp a s2 of
                     None \<Rightarrow> None
                   | Some (s3, e3) \<Rightarrow> Some (s3, e1 @ e2 @ e3))))
      else Some (do_next_inactive s0))"

section \<open>Lifecycle calls\<close>

text \<open>\<open>initJpeg\<close>: \<open>handle\<close> is what \<open>jpeg_open\<close> returns (0 on failure).\<close>

definition initJpeg ::
  "PostProcessor \<Rightarrow> nat \<Rightarrow> cam_dimension \<Rightarrow> nat \<Rightarrow> nat \<Rightarrow> status \<times> PostProcessor" where
  "initJpeg s jpeg_cb_arg max_pic_dim user_data handle =
     (let s1 = s\<lparr>mJpegCB := jpeg_cb_arg, mJpegUserData := user_data\<rparr> in
      if 0 > width max_pic_dim \<or> 0 > height max_pic_dim then (BAD_VALUE, s1)
      else
        let s2 = s1\<lparr>mJpegClientHandle := handle\<rparr>
        in if handle = 0 then (UNKNOWN_ERROR, s2) else (NO_ERROR, s2))"

text \<open>
  \<open>start(config)\<close>: \<open>reprocess\<close> says that the configured reprocess type is not NONE,
  \<open>is_jpeg_type\<close> that it is \<open>REPROCESS_TYPE_JPEG\<close>; \<open>added\<close> is the channel that
  \<open>addOfflineReprocChannel\<close> returns and \<open>start_rc\<close> the status of starting it. The
  start command is sent synchronously, so its handler has run when the call returns.
\<close>

definition start ::
  "bool \<Rightarrow> bool \<Rightarrow> channel option \<Rightarrow> status \<Rightarrow> PostProcessor
     \<Rightarrow> status \<times> PostProcessor \<times> effect list" where
  "start reprocess is_jpeg_type added start_rc s =
     (if reprocess then
        (let e0 = (if m_pReprocChannel s \<noteq> None then [ReprocStop, ReprocDelete] else []);
             s1 = s\<lparr>m_pReprocChannel := added\<rparr>
         in if added = None then (UNKNOWN_ERROR, s1, e0)
            else if is_jpeg_type \<and> start_rc \<noteq> 0
            then (start_rc, s1\<lparr>m_pReprocChannel := None\<rparr>, e0 @ [ReprocDelete])
            else (case cmd_start s1 of
                    (s2, e) \<Rightarrow> ((if is_jpeg_type then start_rc else NO_ERROR), s2, e0 @ e)))
      else (case cmd_start s of (s2, e) \<Rightarrow> (NO_ERROR, s2, e)))"

text \<open>\<open>stop()\<close>: the stop command is sent synchronously; then the reprocess channel,
  if there is one, is stopped and deleted. The call always returns \<open>NO_ERROR\<close>.\<close>

definition stop :: "PostProcessor \<Rightarrow> status \<times> PostProcessor \<times> effect list" where
  "stop s =
     (case cmd_stop s of
        (s1, e1) \<Rightarrow>
          (if m_pReprocChannel s1 \<noteq> None
           then (NO_ERROR, s1\<lparr>m_pReprocChannel := None\<rparr>, e1 @ [ReprocStop, ReprocDelete])
           else (NO_ERROR, s1, e1)))"

text \<open>\<open>flush()\<close>: aborts and releases the ongoing jpeg jobs, then unmaps the offline
  buffers of the reprocess channel.\<close>

definition flush :: "answers \<Rightarrow> PostProcessor \<Rightarrow> status \<times> PostProcessor \<times> effect list" where
  "flush a s =
     (let e1 = abort_ongoing s (m_ongoingJpegQ s);
          s1 = s\<lparr>m_ongoingJpegQ := []\<rparr>
      in if m_pReprocChannel s1 \<noteq> None
         then (unmapOfflineBuffers a True, s1, e1 @ [UnmapOfflineBuffers True])
         else (NO_ERROR, s1, e1))"

section \<open>Runs of the post-processor\<close>

text \<open>
  An event is one command handled by the dispatcher thread or one call made by another
  thread; the commands and calls are taken as atomic. A run applies a list of events to
  a state and collects the effects; it is \<open>None\<close> when an event dereferences a NULL
  pointer.
\<close>

datatype event =
    Cmd_START
  | Cmd_STOP
  | Cmd_DO_NEXT_JOB answers
  | Call_initJpeg nat cam_dimension nat nat
  | Call_start bool bool "channel option" status
  | Call_stop
  | Call_flush answers
  | Call_processData bool "super_buf option" "nat option" nat
  | Call_processFwkData bool fwk_input
  | Call_processPPMetadata super_buf
  | Call_processJpegSettingData "jpeg_settings_t option"
  | Call_processPPData bool "super_buf option"
  | Call_dequeuePPJob nat
  | Call_findJpegJobByJobId nat

fun exec :: "nat \<Rightarrow> event \<Rightarrow> PostProcessor \<Rightarrow> (PostProcessor \<times> effect list) option" where
  "exec M Cmd_START s = Some (cmd_start s)"
| "exec M Cmd_STOP s = Some (cmd_stop s)"
| "exec M (Cmd_DO_NEXT_JOB a) s = cmd_do_next_job M a s"
| "exec M (Call_initJpeg cb d u h) s = Some (snd (initJpeg s cb d u h), [])"
| "exec M (Call_start r j ch rc) s = Some (snd (start r j ch rc s))"
| "exec M Call_stop s = Some (snd (stop s))"
| "exec M (Call_flush a) s = Some (snd (flush a s))"
| "exec M (Call_processData ok i out n) s = Some (snd (processData ok s i out n))"
| "exec M (Call_processFwkData ok f) s = Some (snd (processFwkData ok s f))"
| "exec M (Call_processPPMetadata m) s = Some (snd (processPPMetadata s m))"
| "exec M (Call_processJpegSettingData js) s = Some (snd (processJpegSettingData s js))"
| "exec M (Call_processPPData ok f) s = Some (snd (processPPData ok s f))"
| "exec M (Call_dequeuePPJob n) s = Some (snd (dequeuePPJob s n), [])"
| "exec M (Call_findJpegJobByJobId n) s = Some (snd (findJpegJobByJobId s n), [])"

fun run :: "nat \<Rightarrow> event list \<Rightarrow> PostProcessor \<Rightarrow> (PostProcessor \<times> effect list) option" where
  "run M [] s = Some (s, [])"
| "run M (ev # evs) s =
     (case exec M ev s of
        None \<Rightarrow> None
      | Some (s1, e1) \<Rightarrow>
          (case run M evs s1 of
             None \<Rightarrow> None
           | Some (s2, e2) \<Rightarrow> Some (s2, e1 @ e2)))"


text \<open>The effects that give a resource back or tear something down: a buffer returned to
  a channel, a \<open>free\<close>, an aborted job, a destroyed session, a stopped or deleted
  channel.\<close>

fun is_release :: "effect \<Rightarrow> bool" where
  "is_release (ParentBufDone x) = True"
| "is_release (ReprocBufDone x) = True"
| "is_release (MetadataBufDone x) = True"
| "is_release (Free x) = True"
| "is_release (AbortJob x) = True"
| "is_release (DestroySession x) = True"
| "is_release ReprocStop = True"
| "is_release ReprocDelete = True"
| "is_release (UnmapOfflineBuffers x) = True"
| "is_release (JpegClose x) = True"
| "is_release (StartJob j d q) = False"
| "is_release (CreateSession x) = False"
| "is_release (CleanInvalidateCache x) = False"
| "is_release (OverrideFwkMetadata x) = False"
| "is_release (OverrideMetadata x) = False"
| "is_release (DoReprocessOffline x) = False"
| "is_release (SendCmd x) = False"
| "is_release SyncPost = False"

section \<open>Jobs in flight at the encoder\<close>










section \<open>A concrete configuration\<close>

text \<open>One picture channel with a snapshot stream, a framework frame, a captured frame
  with its metadata frame, settings that ask for a 90 degree rotation and leave the
  quality unset, and an encoder that accepts everything. The theorems below are
  instantiated at these values.\<close>

definition sample_offset :: cam_frame_len_offset where
  "sample_offset = \<lparr>num_planes = 1, mp = [\<lparr>stride = 4032, scanline = 3024\<rparr>],
                     frame_len = 18289152\<rparr>"

definition sample_settings :: jpeg_settings_t where
  "sample_settings = \<lparr>jpeg_orientation = 90, jpeg_quality = 0, jpeg_thumb_quality = 70,
                       thumbnail_size = \<lparr>width = 320, height = 240\<rparr>, out_buf_index = 0\<rparr>"

definition sample_mem :: stream_mem where
  "sample_mem = \<lparr>getCnt = 1, getSize = (\<lambda>i. if i < 1 then 4096 else BAD_INDEX),
                  getPtr = (\<lambda>i. 64), getFd = (\<lambda>i. 3)\<rparr>"

definition sample_stream :: stream where
  "sample_stream = \<lparr>getMyType = CAM_STREAM_TYPE_SNAPSHOT, getFormat = CAM_FORMAT_YUV_420_NV21,
                     getFrameDimension = \<lparr>width = 4000, height = 3000\<rparr>,
                     getFrameOffset = sample_offset, getStreamBufs = Some sample_mem\<rparr>"

definition sample_parent :: channel where
  "sample_parent = \<lparr>getMyHandle = 1,
                     getStreamByHandle = (\<lambda>h. if h = 7 then Some sample_stream else None),
                     getStreamSize = (NO_ERROR, \<lparr>width = 4000, height = 3000\<rparr>)\<rparr>"

definition sample_reproc :: channel where
  "sample_reproc = \<lparr>getMyHandle = 2,
                     getStreamByHandle = (\<lambda>h. if h = 8 then Some sample_stream else None),
                     getStreamSize = (NO_ERROR, \<lparr>width = 4000, height = 3000\<rparr>)\<rparr>"

definition sample_frame :: super_buf where
  "sample_frame = \<lparr>sb_addr = 100, sb_ch_id = 1,
                    sb_bufs = [\<lparr>bd_stream_id = 7, bd_buf_idx = 0, bd_mem_info = True,
                               bd_buffer = 0\<rparr>]\<rparr>"

definition sample_meta :: super_buf where
  "sample_meta = \<lparr>sb_addr = 200, sb_ch_id = 1,
                   sb_bufs = [\<lparr>bd_stream_id = 6, bd_buf_idx = 0, bd_mem_info = True,
                              bd_buffer = 55\<rparr>]\<rparr>"

definition sample_fwk :: fwk_input where
  "sample_fwk = \<lparr>fwk_frameNumber = 5,
                  input_stream_dim = \<lparr>width = 4000, height = 3000\<rparr>,
                  output_stream_dim = \<lparr>width = 2000, height = 1500\<rparr>,
                  stream_format = CAM_FORMAT_YUV_420_NV21,
                  input_plane_info = sample_offset, input_frame_len = 18289152,
                  input_buffer = 128, input_fd = 4,
                  fwk_metadata_buffer = Some 55, reprocess_needed = False\<rparr>"

definition sample_answers :: answers where
  "sample_answers = \<lparr>needJpegRotation = False,
                      destroy_session = (\<lambda>sid. NO_ERROR),
                      create_session = (\<lambda>h prm old. (NO_ERROR, 5)),
                      start_job = (\<lambda>j. (NO_ERROR, 9)),
                      getExifData = (\<lambda>m js. None),
                      malloc_debug_params = True, malloc_pp_job_fwk = True,
                      malloc_pp_job = True, malloc_jpeg_job = True,
                      overrideMetadata = (\<lambda>b. NO_ERROR),
                      doReprocessOffline = (\<lambda>n. NO_ERROR),
                      unmapOfflineBuffers = (\<lambda>b. NO_ERROR)\<rparr>"

definition sample_state :: PostProcessor where
  "sample_state = (PostProcessor_new (Some sample_parent) sample_mem)\<lparr>mJpegClientHandle := 1\<rparr>"

definition sample_fwk_job :: jpeg_job where
  "sample_fwk_job = zero_jpeg_job\<lparr>fwk_frame := Some sample_fwk, metadata := Some 55,
                                   jpeg_settings := Some sample_settings\<rparr>"

definition sample_data_job :: jpeg_job where
  "sample_data_job = zero_jpeg_job\<lparr>src_frame := Some sample_frame, metadata := Some 55,
                                    src_metadata := Some sample_meta,
                                    jpeg_settings := Some sample_settings\<rparr>"

text \<open>A call returned, and returned \<open>NO_ERROR\<close>.\<close>

definition returns_ok :: "(status \<times> 'a) option \<Rightarrow> bool" where
  "returns_ok r = (case r of None \<Rightarrow> False | Some (ret, x) \<Rightarrow> ret = NO_ERROR)"


fun not_start :: "effect \<Rightarrow> bool" where
  "not_start (StartJob j d q) = False"
| "not_start e = True"



text \<open>A busy state: a session is open, one job is with the encoder, a captured frame and
  a metadata frame are waiting, a reprocess channel exists.\<close>

definition busy_state :: PostProcessor where
  "busy_state = sample_state
     \<lparr>mJpegSessionId := 5, m_pReprocChannel := Some sample_reproc,
      m_inputPPQ := [\<lparr>pp_input = Some sample_frame, pp_output = None, pp_frameNumber = 3\<rparr>],
      m_ongoingJpegQ := [sample_data_job\<lparr>jobId := 9\<rparr>],
      m_inputMetaQ := [sample_meta],
      is_active := True\<rparr>"


text \<open>An encoder and a reprocess channel whose \<open>doReprocessOffline\<close> refuses every
  frame, and a run from the constructor in which the encoder is opened, the
  post-processor is started with a reprocess channel, settings, a captured frame and its
  metadata frame arrive, and the dispatcher is woken.\<close>

definition failing_answers :: answers where
  "failing_answers = sample_answers\<lparr>doReprocessOffline := (\<lambda>n. - 1)\<rparr>"

definition refused_run :: "event list" where
  "refused_run = [Call_initJpeg 0 \<lparr>width = 4000, height = 3000\<rparr> 0 1,
                  Call_start True False (Some sample_reproc) NO_ERROR,
                  Call_processJpegSettingData (Some sample_settings),
                  Call_processData True (Some sample_frame) None 3,
                  Call_processPPMetadata sample_meta,
                  Cmd_DO_NEXT_JOB failing_answers]"

text \<open>Calls made before the dispatcher has been started: settings and a framework frame
  that needs no reprocessing arrive, and the dispatcher is woken.\<close>

definition early_run :: "event list" where
  "early_run = [Call_processJpegSettingData (Some sample_settings),
                Call_processFwkData True sample_fwk,
                Cmd_DO_NEXT_JOB sample_answers]"


definition idle_state :: PostProcessor where
  "idle_state = (PostProcessor_new (Some sample_parent) sample_mem)
     \<lparr>m_pReprocChannel := Some sample_reproc, m_inputJpegQ := [sample_data_job]\<rparr>"









text \<open>A run that ends with a jpeg job that has neither source frame: the post-processor
  is started with a reprocess channel, a captured frame is sent to reprocessing, and the
  channel's callback hands \<open>processPPData\<close> a NULL frame. \<open>orphan_job\<close> is the job that
  \<open>processPPData\<close> then puts on the jpeg input queue.\<close>

definition orphan_run :: "event list" where
  "orphan_run = [Call_initJpeg 0 \<lparr>width = 4000, height = 3000\<rparr> 0 1,
                 Call_start True False (Some sample_reproc) NO_ERROR,
                 Call_processJpegSettingData (Some sample_settings),
                 Call_processData True (Some sample_frame) None 3,
                 Call_processPPMetadata sample_meta,
                 Cmd_DO_NEXT_JOB sample_answers,
                 Call_processPPData True None]"

definition orphan_job :: jpeg_job where
  "orphan_job = zero_jpeg_job\<lparr>src_reproc_frame := Some sample_frame, metadata := Some 55,
                               src_metadata := Some sample_meta,
                               jpeg_settings := Some sample_settings\<rparr>"

text \<open>Settings that name an output buffer the output memory does not have.\<close>

definition stray_settings :: jpeg_settings_t where
  "stray_settings = sample_settings\<lparr>jpeg_quality := 95, out_buf_index := 1\<rparr>"



section \<open>Exposure time\<close>

lemma sint_ucast_64_32:
  fixes v :: "64 word"
  assumes "- (2 ^ 31) \<le> sint v" "sint v < 2 ^ 31"
  shows "sint (ucast v :: 32 word) = sint v"
proof -
  have a: "sint (ucast v :: 32 word) = signed_take_bit 31 (uint v)"
    by (simp add: sint_uint unsigned_ucast_eq signed_take_bit_take_bit)
  have b: "signed_take_bit 31 (sint v) = signed_take_bit 31 (uint v)"
    by (simp add: sint_uint)
  have c: "signed_take_bit 31 (sint v) = sint v"
    using assms by (simp add: signed_take_bit_int_eq_self)
  show ?thesis using a b c by simp
qed

lemma uint_eq_sint_nonneg:
  fixes w :: "32 word"
  assumes "0 \<le> sint w"
  shows "uint w = sint w"
proof -
  have lt: "uint w < 2 ^ 32" using uint_bounded [of w] by simp
  have ge: "0 \<le> uint w" by simp
  have tb: "take_bit 32 (uint w) = uint w"
    using lt ge by (simp add: take_bit_int_eq_self)
  have "sint w = take_bit 32 (uint w) - 2 ^ 32 * of_bool (bit (uint w) 31)"
    by (simp add: sint_uint signed_take_bit_eq_take_bit_minus)
  then have e: "sint w = uint w - 2 ^ 32 * of_bool (bit (uint w) 31)"
    using tb by simp
  show ?thesis
  proof (cases "bit (uint w) 31")
    case True
    then have "sint w = uint w - 2 ^ 32" using e by simp
    then show ?thesis using assms lt by simp
  next
    case False
    then show ?thesis using e by simp
  qed
qed

lemma uint_ucast_64_32_pos:
  fixes v :: "64 word"
  assumes "0 < sint v" "sint v < 2 ^ 31"
  shows "uint (ucast v :: 32 word) = sint v"
proof -
  have s: "sint (ucast v :: 32 word) = sint v"
    using assms by (simp add: sint_ucast_64_32)
  then have "0 \<le> sint (ucast v :: 32 word)"
    using assms by simp
  then have "uint (ucast v :: 32 word) = sint (ucast v :: 32 word)"
    by (rule uint_eq_sint_nonneg)
  then show ?thesis using s by simp
qed

text \<open>
  C6, as stated, at the raw value \<open>-1\<close>: the claim promises the rational \<open>(1, V)\<close> for
  every nonzero \<open>V\<close>, but \<open>getRational\<close> rejects a non-positive denominator, so the
  computation returns \<open>BAD_VALUE\<close> and leaves the output cell as it was.
\<close>

theorem C6_exposure_negative_counterexample:
  "getExifExpTimeInfo (Some \<lparr>rat_num = 7, rat_denom = 9\<rparr>) (- 1)
     = (BAD_VALUE, Some \<lparr>rat_num = 7, rat_denom = 9\<rparr>)"
  by code_simp

text \<open>
  C6, amended: for a raw exposure value \<open>V\<close> with \<open>0 < V < 2^31\<close> the exposure-time
  computation succeeds and stores the rational \<open>(1, V)\<close>; for \<open>V = 0\<close> it stores
  \<open>(1, 60)\<close>; for \<open>-2^31 \<le> V < 0\<close> it returns \<open>BAD_VALUE\<close> and stores nothing.
\<close>

theorem C6_exposure_time_rational:
  fixes V :: "64 word"
  shows "(V = 0 \<longrightarrow>
            getExifExpTimeInfo (Some r) V = (NO_ERROR, Some \<lparr>rat_num = 1, rat_denom = 60\<rparr>))
       \<and> (0 < sint V \<and> sint V < 2 ^ 31 \<longrightarrow>
            getExifExpTimeInfo (Some r) V = (NO_ERROR, Some \<lparr>rat_num = 1, rat_denom = ucast V\<rparr>)
            \<and> uint (ucast V :: 32 word) = sint V)
       \<and> (- (2 ^ 31) \<le> sint V \<and> sint V < 0 \<longrightarrow>
            getExifExpTimeInfo (Some r) V = (BAD_VALUE, Some r))"
proof (intro conjI impI)
  assume "V = 0"
  then show "getExifExpTimeInfo (Some r) V = (NO_ERROR, Some \<lparr>rat_num = 1, rat_denom = 60\<rparr>)"
    by (simp add: getExifExpTimeInfo_def getRational_def)
next
  assume h: "0 < sint V \<and> sint V < 2 ^ 31"
  then have nz: "V \<noteq> 0" by auto
  have s: "sint (ucast V :: 32 word) = sint V"
    using h by (simp add: sint_ucast_64_32)
  show "getExifExpTimeInfo (Some r) V = (NO_ERROR, Some \<lparr>rat_num = 1, rat_denom = ucast V\<rparr>)"
    using h nz s by (simp add: getExifExpTimeInfo_def getRational_def)
  show "uint (ucast V :: 32 word) = sint V"
    using h by (simp add: uint_ucast_64_32_pos)
next
  assume h: "- (2 ^ 31) \<le> sint V \<and> sint V < 0"
  then have nz: "V \<noteq> 0" by auto
  have s: "sint (ucast V :: 32 word) = sint V"
    using h by (simp add: sint_ucast_64_32)
  show "getExifExpTimeInfo (Some r) V = (BAD_VALUE, Some r)"
    using h nz s by (simp add: getExifExpTimeInfo_def getRational_def)
qed

theorem C6_exposure_time_rational_witness:
  "getExifExpTimeInfo (Some \<lparr>rat_num = 7, rat_denom = 9\<rparr>) 0
     = (NO_ERROR, Some \<lparr>rat_num = 1, rat_denom = 60\<rparr>)
   \<and> getExifExpTimeInfo (Some \<lparr>rat_num = 7, rat_denom = 9\<rparr>) 30
     = (NO_ERROR, Some \<lparr>rat_num = 1, rat_denom = 30\<rparr>)
   \<and> getExifExpTimeInfo (Some \<lparr>rat_num = 7, rat_denom = 9\<rparr>) (- 5)
     = (BAD_VALUE, Some \<lparr>rat_num = 7, rat_denom = 9\<rparr>)"
  using C6_exposure_time_rational [of 0 "\<lparr>rat_num = 7, rat_denom = 9\<rparr>"]
        C6_exposure_time_rational [of 30 "\<lparr>rat_num = 7, rat_denom = 9\<rparr>"]
        C6_exposure_time_rational [of "- 5" "\<lparr>rat_num = 7, rat_denom = 9\<rparr>"]
  by simp

section \<open>Tag-entry capacity\<close>

text \<open>
  C9: the tag-entry collection has a fixed maximum capacity. A call of \<open>addEntry\<close> made
  when the entry count has reached the capacity returns the out-of-memory status and
  leaves the collection (entry array and entry count) exactly as it was, so no earlier
  entry is touched; and a call made below the capacity never takes the count past it.
\<close>

theorem C9_addEntry_full:
  "(MAX_ENTRIES \<le> m_nNumEntries exif \<longrightarrow>
      addEntry MAX_ENTRIES malloc_ok exif tagid ty cnt bytes = (NO_MEMORY, exif))
   \<and> (m_nNumEntries exif \<le> MAX_ENTRIES \<longrightarrow>
      m_nNumEntries (snd (addEntry MAX_ENTRIES malloc_ok exif tagid ty cnt bytes)) \<le> MAX_ENTRIES)"
  by (auto simp: addEntry_def Let_def split: prod.splits)

theorem C9_addEntry_full_witness:
  "addEntry 1 True
     (snd (addEntry 1 True (QCamera3Exif_new 1) 7 EXIF_BYTE 1 [5]))
     8 EXIF_SHORT 1 [1, 2]
   = (NO_MEMORY, snd (addEntry 1 True (QCamera3Exif_new 1) 7 EXIF_BYTE 1 [5]))
   \<and> m_nNumEntries (snd (addEntry 1 True (QCamera3Exif_new 1) 7 EXIF_BYTE 1 [5])) = 1
   \<and> m_nNumEntries (snd (addEntry 2 True (QCamera3Exif_new 2) 7 EXIF_BYTE 1 [5])) \<le> 2"
  using C9_addEntry_full [of 1 "snd (addEntry 1 True (QCamera3Exif_new 1) 7 EXIF_BYTE 1 [5])"
                             True 8 EXIF_SHORT 1 "[1, 2]"]
        C9_addEntry_full [of 2 "QCamera3Exif_new 2" True 7 EXIF_BYTE 1 "[5]"]
  by (simp add: addEntry_def QCamera3Exif_new_def store_data_def zero_entry_def)

section \<open>Default encode quality\<close>

text \<open>
  C10, as stated, at settings that name an output buffer the output memory does not
  have: the framework-frame builder returns \<open>BAD_VALUE\<close> at its buffer check, before it
  writes the quality, so the parameters keep the zero they came with, for a requested
  quality of 95 and for a requested quality of 0 alike.
\<close>

theorem C10_default_quality_counterexample:
  "jpeg_quality stray_settings = 95
   \<and> getFWKJpegEncodeConfig sample_state (zero_params 1) (Some sample_fwk) (Some stray_settings)
       = (BAD_VALUE, zero_params 1, sample_state)
   \<and> quality (fst (snd (getFWKJpegEncodeConfig sample_state (zero_params 1) (Some sample_fwk)
                          (Some stray_settings)))) = 0
   \<and> quality (fst (snd (getFWKJpegEncodeConfig sample_state (zero_params 1) (Some sample_fwk)
                          (Some (stray_settings\<lparr>jpeg_quality := 0\<rparr>))))) = 0"
  by (simp add: getFWKJpegEncodeConfig_def stray_settings_def sample_settings_def
      sample_state_def PostProcessor_new_def sample_mem_def zero_params_def Let_def)

text \<open>
  C10, amended: the captured-frame builder sets the encode quality to 85 when the
  requested quality is less than or equal to zero and to the requested value when it is
  greater, on every path (it writes the quality before any of its error exits). The
  framework-frame builder does the same whenever it accepts its arguments, which it does
  exactly when it is given a frame and the output memory knows the output buffer index
  of the settings; when it does not accept them it returns \<open>BAD_VALUE\<close> and leaves the
  parameters, the quality among them, as they were.
\<close>

theorem C10_default_quality:
  "quality (fst (snd (getJpegEncodeConfig MAXBUF s parm main_stream js)))
     = (if jpeg_quality js \<le> 0 then 85 else jpeg_quality js)
   \<and> (fst (getFWKJpegEncodeConfig s parm frame (Some js)) = NO_ERROR \<longrightarrow>
        quality (fst (snd (getFWKJpegEncodeConfig s parm frame (Some js))))
          = (if jpeg_quality js \<le> 0 then 85 else jpeg_quality js))
   \<and> (fst (getFWKJpegEncodeConfig s parm frame (Some js)) = NO_ERROR)
       = (frame \<noteq> None \<and> getSize (mOutputMem s) (out_buf_index js) \<noteq> BAD_INDEX)
   \<and> (fst (getFWKJpegEncodeConfig s parm frame (Some js)) \<noteq> NO_ERROR \<longrightarrow>
        getFWKJpegEncodeConfig s parm frame (Some js) = (BAD_VALUE, parm, s))"
proof (intro conjI)
  show "quality (fst (snd (getJpegEncodeConfig MAXBUF s parm main_stream js)))
          = (if jpeg_quality js \<le> 0 then 85 else jpeg_quality js)"
    by (auto simp: getJpegEncodeConfig_def Let_def split: option.splits prod.splits if_splits)
next
  show "fst (getFWKJpegEncodeConfig s parm frame (Some js)) = NO_ERROR \<longrightarrow>
        quality (fst (snd (getFWKJpegEncodeConfig s parm frame (Some js))))
          = (if jpeg_quality js \<le> 0 then 85 else jpeg_quality js)"
    by (simp add: getFWKJpegEncodeConfig_def Let_def split: option.splits)
next
  show "(fst (getFWKJpegEncodeConfig s parm frame (Some js)) = NO_ERROR)
       = (frame \<noteq> None \<and> getSize (mOutputMem s) (out_buf_index js) \<noteq> BAD_INDEX)"
    by (simp add: getFWKJpegEncodeConfig_def Let_def split: option.splits)
next
  show "fst (getFWKJpegEncodeConfig s parm frame (Some js)) \<noteq> NO_ERROR \<longrightarrow>
        getFWKJpegEncodeConfig s parm frame (Some js) = (BAD_VALUE, parm, s)"
    by (simp add: getFWKJpegEncodeConfig_def Let_def split: option.splits)
qed

theorem C10_default_quality_witness:
  "quality (fst (snd (getJpegEncodeConfig 1 sample_state (zero_params 1) sample_stream
                        sample_settings))) = 85
   \<and> fst (getFWKJpegEncodeConfig sample_state (zero_params 1) (Some sample_fwk)
             (Some sample_settings)) = NO_ERROR
   \<and> quality (fst (snd (getFWKJpegEncodeConfig sample_state (zero_params 1) (Some sample_fwk)
                          (Some sample_settings)))) = 85
   \<and> quality (fst (snd (getFWKJpegEncodeConfig sample_state (zero_params 1) (Some sample_fwk)
                          (Some (sample_settings\<lparr>jpeg_quality := 95\<rparr>))))) = 95
   \<and> getFWKJpegEncodeConfig sample_state (zero_params 1) (Some sample_fwk) (Some stray_settings)
       = (BAD_VALUE, zero_params 1, sample_state)"
proof -
  have m: "mOutputMem sample_state = sample_mem"
    by (simp add: sample_state_def PostProcessor_new_def)
  have i0: "getSize sample_mem 0 \<noteq> BAD_INDEX" and i1: "getSize sample_mem 1 = BAD_INDEX"
    by (simp_all add: sample_mem_def)
  show ?thesis
    using m i0 i1
      C10_default_quality [of 1 sample_state "zero_params 1" sample_stream sample_settings
                              "Some sample_fwk"]
      C10_default_quality [of 1 sample_state "zero_params 1" sample_stream
                              "sample_settings\<lparr>jpeg_quality := 95\<rparr>" "Some sample_fwk"]
      C10_default_quality [of 1 sample_state "zero_params 1" sample_stream
                              stray_settings "Some sample_fwk"]
    by (simp add: sample_settings_def stray_settings_def)
qed

section \<open>Validation of the source frames\<close>

text \<open>
  What \<open>encodeFWKData\<close> checks. When both the captured source frame and the framework
  source frame of the job are present, or neither is, it returns the invalid-argument
  status \<open>BAD_VALUE\<close> before it touches the job, the post-processor or the encoder; and
  whenever it returns \<open>NO_ERROR\<close>, exactly one of the two frames was present (the
  framework one).
\<close>

lemma encodeFWKData_validates:
  "((src_frame job \<noteq> None \<and> fwk_frame job \<noteq> None)
      \<or> (src_frame job = None \<and> fwk_frame job = None)
      \<longrightarrow> encodeFWKData M a s (Some job) nns = Some (BAD_VALUE, Some job, s, nns, []))
   \<and> (returns_ok (encodeFWKData M a s (Some job) nns)
      \<longrightarrow> fwk_frame job \<noteq> None \<and> src_frame job = None)"
proof (rule conjI)
  show "(src_frame job \<noteq> None \<and> fwk_frame job \<noteq> None)
      \<or> (src_frame job = None \<and> fwk_frame job = None)
      \<longrightarrow> encodeFWKData M a s (Some job) nns = Some (BAD_VALUE, Some job, s, nns, [])"
    by (auto simp: encodeFWKData_def split: option.splits)
next
  show "returns_ok (encodeFWKData M a s (Some job) nns)
      \<longrightarrow> fwk_frame job \<noteq> None \<and> src_frame job = None"
    by (auto simp: encodeFWKData_def returns_ok_def split: option.splits if_splits)
qed

text \<open>
  C1, at a failing input. The dispatcher hands a job to \<open>encodeFWKData\<close> only when its
  framework frame is present; every other job goes to \<open>encodeData\<close>, which reads
  \<open>src_frame->bufs[0]\<close> and \<open>src_frame->ch_id\<close> without a check. After a captured frame
  has been sent to reprocessing and \<open>processPPData\<close> has been called back with a NULL
  frame, the jpeg input queue of the active post-processor holds a job with neither
  source frame; the next wake-up dereferences the NULL pointer instead of returning an
  error. \<open>encodeFWKData\<close>, given the same job, returns \<open>BAD_VALUE\<close>.
\<close>

theorem C1_neither_frame_dereferenced:
  "(case run 1 orphan_run (PostProcessor_new (Some sample_parent) sample_mem) of
      None \<Rightarrow> False
    | Some (s, tr) \<Rightarrow>
        is_active s \<and> m_ongoingJpegQ s = [] \<and> m_inputJpegQ s = [orphan_job])
   \<and> src_frame orphan_job = None \<and> fwk_frame orphan_job = None
   \<and> run 1 (orphan_run @ [Cmd_DO_NEXT_JOB sample_answers])
        (PostProcessor_new (Some sample_parent) sample_mem) = None
   \<and> encodeData 1 sample_answers sample_state orphan_job True = None
   \<and> encodeFWKData 1 sample_answers sample_state (Some orphan_job) True
       = Some (BAD_VALUE, Some orphan_job, sample_state, True, [])"
  by (simp add: orphan_run_def orphan_job_def PostProcessor_new_def initJpeg_def start_def
      cmd_start_def q_init_def processJpegSettingData_def processData_def
      processPPMetadata_def processPPData_def cmd_do_next_job_def do_next_jpeg_def
      do_next_fwk_pp_def do_next_pp_def q_isEmpty_def Let_def sample_answers_def
      zero_pp_job_def zero_jpeg_job_def sample_meta_def sample_frame_def q_enqueue_def
      encodeData_def encodeFWKData_def sample_state_def)

section \<open>At most one encode job in flight\<close>




















lemma q_flush_not_start:
  assumes "\<And>x. list_all not_start (rel x)"
  shows "list_all not_start (fst (q_flush rel q))"
  using assms by (induction q) (simp_all add: q_flush_def)

lemma q_flush_empty: "snd (q_flush rel q) = []"
  by (simp add: q_flush_def)














































section \<open>Stopping twice\<close>

lemma q_flush_Nil: "q_flush rel [] = ([], [])"
  by (simp add: q_flush_def)

lemma cmd_stop_stopped:
  "cmd_stop s = (s', eff) \<Longrightarrow>
     m_ongoingJpegQ s' = [] \<and> mJpegSessionId s' = 0 \<and> m_ongoingPPQ s' = []
     \<and> m_inputJpegQ s' = [] \<and> m_inputPPQ s' = [] \<and> m_inputFWKPPQ s' = []
     \<and> m_inputMetaQ s' = [] \<and> \<not> is_active s' \<and> needNewSess s'"
  by (auto simp: cmd_stop_def Let_def q_flush_def split: prod.splits if_splits)

lemma cmd_stop_when_stopped:
  assumes "m_ongoingJpegQ s = []" "mJpegSessionId s = 0" "m_ongoingPPQ s = []"
     "m_inputJpegQ s = []" "m_inputPPQ s = []" "m_inputFWKPPQ s = []"
     "m_inputMetaQ s = []" "\<not> is_active s" "needNewSess s"
  shows "cmd_stop s = (s, [SyncPost])"
proof -
  have "s\<lparr>is_active := False, m_ongoingJpegQ := [], needNewSess := True, m_ongoingPPQ := [],
          m_inputJpegQ := [], m_inputPPQ := [], m_inputFWKPPQ := [], m_inputMetaQ := []\<rparr> = s"
    using assms by simp
  then show ?thesis
    using assms by (simp add: cmd_stop_def Let_def q_flush_Nil)
qed

lemma stop_twice:
  assumes "stop s = (r1, s1, e1)"
  shows "r1 = NO_ERROR \<and> stop s1 = (NO_ERROR, s1, [SyncPost])"
proof -
  obtain s0 e0 where c: "cmd_stop s = (s0, e0)" by (cases "cmd_stop s")
  note st = cmd_stop_stopped [OF c]
  have s1: "s1 = s0\<lparr>m_pReprocChannel := None\<rparr>" and r1: "r1 = NO_ERROR"
    using assms c by (auto simp: stop_def split: if_splits)
  have "cmd_stop s1 = (s1, [SyncPost])"
    by (rule cmd_stop_when_stopped) (simp_all add: s1 st)
  moreover have "m_pReprocChannel s1 = None" by (simp add: s1)
  ultimately show ?thesis using r1 by (simp add: stop_def)
qed

lemma wake_when_stopped:
  assumes "m_inputJpegQ s = []" "m_inputPPQ s = []" "m_inputFWKPPQ s = []"
     "m_inputMetaQ s = []" "\<not> is_active s" "needNewSess s"
  shows "cmd_do_next_job M a s = Some (s, [])"
proof -
  have "s\<lparr>needNewSess := True, m_inputJpegQ := [], m_inputPPQ := [], m_inputMetaQ := [],
          m_inputFWKPPQ := []\<rparr> = s"
    using assms by simp
  then show ?thesis
    using assms by (simp add: cmd_do_next_job_def do_next_inactive_def Let_def)
qed

lemma wake_after_stop:
  assumes "stop s = (r1, s1, e1)"
  shows "cmd_do_next_job M a s1 = Some (s1, [])"
proof -
  obtain s0 e0 where c: "cmd_stop s = (s0, e0)" by (cases "cmd_stop s")
  note st = cmd_stop_stopped [OF c]
  have s1: "s1 = s0\<lparr>m_pReprocChannel := None\<rparr>"
    using assms c by (auto simp: stop_def split: if_splits)
  show ?thesis
    by (rule wake_when_stopped) (simp_all add: s1 st)
qed

text \<open>
  C8: calling \<open>stop()\<close> twice in succession is idempotent. Both calls return
  \<open>NO_ERROR\<close>; the second call only acknowledges the command: it aborts no job,
  destroys no session, releases no buffer and leaves the post-processor as the first
  call left it. A wake-up of the dispatcher between the two calls does nothing either.
\<close>

theorem C8_stop_idempotent:
  "fst (stop s) = NO_ERROR
   \<and> fst (stop (fst (snd (stop s)))) = NO_ERROR
   \<and> snd (snd (stop (fst (snd (stop s))))) = [SyncPost]
   \<and> filter is_release (snd (snd (stop (fst (snd (stop s)))))) = []
   \<and> fst (snd (stop (fst (snd (stop s))))) = fst (snd (stop s))
   \<and> cmd_do_next_job M a (fst (snd (stop s))) = Some (fst (snd (stop s)), [])"
proof -
  obtain r1 s1 e1 where a: "stop s = (r1, s1, e1)" by (cases "stop s") auto
  from stop_twice [OF a] wake_after_stop [OF a, of M a] show ?thesis using a by simp
qed

lemma busy_stop: "list_ex is_release (snd (snd (stop busy_state)))"
  by (simp add: busy_state_def stop_def cmd_stop_def sample_state_def PostProcessor_new_def Let_def
      q_flush_def releaseJpegJobData_def sample_data_job_def zero_jpeg_job_def)

theorem C8_stop_idempotent_witness:
  "fst (stop busy_state) = NO_ERROR
   \<and> list_ex is_release (snd (snd (stop busy_state)))
   \<and> stop (fst (snd (stop busy_state))) = (NO_ERROR, fst (snd (stop busy_state)), [SyncPost])"
  using C8_stop_idempotent [of busy_state 1 sample_answers] busy_stop
  by (cases "stop (fst (snd (stop busy_state)))") simp



section \<open>Rollback of a refused postprocess job\<close>

text \<open>
  C3, at a failing input: after start with a reprocess channel, settings, a captured
  frame and its metadata frame arrive, and the channel refuses the job. The dispatcher
  frees the job structure, returns the frame to the parent channel and releases the
  metadata frame, and does not try again; but the settings it took from the settings
  queue are freed nowhere: they are gone from the queue and no \<open>free\<close> of them is
  among the effects of the run.
\<close>

theorem C3_rollback_leaks_settings:
  "case run 1 refused_run (PostProcessor_new (Some sample_parent) sample_mem) of
     None \<Rightarrow> False
   | Some (s', tr) \<Rightarrow>
       tr = [SyncPost, SendCmd CAMERA_CMD_TYPE_DO_NEXT_JOB,
             OverrideMetadata \<lparr>pp_input = Some sample_frame, pp_output = None, pp_frameNumber = 3\<rparr>,
             DoReprocessOffline 3,
             Free (PPJobObj \<lparr>pp_src_frame = Some sample_frame, pp_fwk_src_frame = None,
                             pp_metadata = Some 55, pp_src_metadata = Some sample_meta,
                             pp_jpeg_settings = Some sample_settings\<rparr>),
             ParentBufDone sample_frame, Free (SuperBufObj sample_frame),
             Free (PPBufferObj \<lparr>pp_input = Some sample_frame, pp_output = None, pp_frameNumber = 3\<rparr>),
             MetadataBufDone sample_meta, Free (SuperBufObj sample_meta)]
       \<and> Free (SettingsObj sample_settings) \<notin> set tr
       \<and> m_jpegSettingsQ s' = [] \<and> m_ongoingPPQ s' = [] \<and> m_inputPPQ s' = []
       \<and> m_inputMetaQ s' = []"
  by (simp add: refused_run_def PostProcessor_new_def initJpeg_def start_def cmd_start_def
      q_init_def processJpegSettingData_def processData_def processPPMetadata_def
      cmd_do_next_job_def
      do_next_jpeg_def do_next_fwk_pp_def do_next_pp_def q_isEmpty_def Let_def failing_answers_def
      sample_answers_def zero_pp_job_def sample_meta_def q_enqueue_def q_dequeue_last_def
      releaseSuperBuf_def)


section \<open>A wake-up while not active\<close>

text \<open>
  C4, at two failing inputs. A job on the jpeg input queue is taken off by a wake-up of
  the inactive dispatcher, and only the job structure is freed: the frames and settings
  it holds are not given to \<open>releaseJpegJobData\<close>, whose effects for the second job are
  listed for comparison.
\<close>

theorem C4_inactive_wake_frees_job_only:
  "(case run 1 early_run (PostProcessor_new (Some sample_parent) sample_mem) of
      None \<Rightarrow> False
    | Some (s', tr) \<Rightarrow>
        tr = [SendCmd CAMERA_CMD_TYPE_DO_NEXT_JOB, Free (JpegJobObj sample_fwk_job)]
        \<and> m_inputJpegQ s' = [])
   \<and> cmd_do_next_job 1 sample_answers idle_state
      = Some (idle_state\<lparr>m_inputJpegQ := []\<rparr>, [Free (JpegJobObj sample_data_job)])
   \<and> releaseJpegJobData idle_state (Some sample_data_job)
      = [ReprocBufDone sample_frame, Free (SuperBufObj sample_frame),
         MetadataBufDone sample_meta, Free (SuperBufObj sample_meta),
         Free (SettingsObj sample_settings), SendCmd CAMERA_CMD_TYPE_DO_NEXT_JOB]"
  by (simp add: early_run_def PostProcessor_new_def processJpegSettingData_def q_enqueue_def
       processFwkData_def sample_fwk_def cmd_do_next_job_def do_next_inactive_def Let_def
       sample_fwk_job_def zero_jpeg_job_def releaseJpegJobData_def sample_data_job_def
       idle_state_def)

section \<open>Rotation by exchanging width and height\<close>













lemma not_start_no_StartJob [simp]:
  "list_all not_start es \<Longrightarrow> (StartJob j d q \<in> set es) = False"
  by (induction es) auto



























section \<open>GPS coordinates\<close>

lemma round_half_even_close:
  "\<bar>of_int (round_half_even x) - x\<bar> \<le> 1 / 2"
proof -
  define n where "n = \<lfloor>x\<rfloor>"
  have a: "of_int n \<le> x" and b: "x < of_int n + 1" unfolding n_def by linarith+
  have "(round_half_even x = n \<and> x - of_int n \<le> 1 / 2)
      \<or> (round_half_even x = n + 1 \<and> 1 / 2 \<le> x - of_int n)"
    by (auto simp: round_half_even_def Let_def n_def)
  then show ?thesis
  proof
    assume "round_half_even x = n \<and> x - of_int n \<le> 1 / 2"
    then show ?thesis using a by (simp add: abs_if)
  next
    assume h: "round_half_even x = n + 1 \<and> 1 / 2 \<le> x - of_int n"
    then have "of_int (round_half_even x) - x = of_int n + 1 - x" by simp
    then show ?thesis using h b by (simp add: abs_if)
  qed
qed

lemma round_half_even_nonneg: "0 \<le> x \<Longrightarrow> 0 \<le> round_half_even x"
  by (auto simp: round_half_even_def Let_def intro: add_nonneg_nonneg)

lemma round_half_even_le:
  assumes "x \<le> of_int N"
  shows "round_half_even x \<le> N"
proof -
  have "of_int (round_half_even x) \<le> x + 1 / 2"
    using round_half_even_close [of x] by (simp add: abs_if split: if_splits)
  then have "(of_int (round_half_even x) :: rat) < of_int N + 1" using assms by linarith
  then have "(of_int (round_half_even x) :: rat) < of_int (N + 1)" by simp
  then have "round_half_even x < N + 1" by (simp only: of_int_less_iff)
  then show ?thesis by simp
qed

lemma round_half_even_zero_iff:
  assumes "0 \<le> x"
  shows "round_half_even x = 0 \<longleftrightarrow> x \<le> 1 / 2"
proof
  assume "round_half_even x = 0"
  then show "x \<le> 1 / 2" using round_half_even_close [of x] by (simp add: abs_if split: if_splits)
next
  assume h: "x \<le> 1 / 2"
  then have f: "\<lfloor>x\<rfloor> = 0" using assms by (simp add: floor_eq_iff)
  show "round_half_even x = 0" using h f by (auto simp: round_half_even_def Let_def)
qed

text \<open>The exponent that \<open>binade\<close> computes is not above the number.\<close>

lemma binade_le:
  assumes "x \<noteq> 0"
  shows "2 powi (binade x) \<le> \<bar>x\<bar>"
proof -
  obtain a b where q: "quotient_of \<bar>x\<bar> = (a, b)" by (cases "quotient_of \<bar>x\<bar>")
  have bpos: "0 < b" using q by (rule quotient_of_denom_pos)
  have xe: "\<bar>x\<bar> = of_int a / of_int b" using q by (rule quotient_of_div)
  have "0 < \<bar>x\<bar>" using assms by simp
  then have apos: "0 < a" using xe bpos by (simp add: zero_less_divide_iff)
  let ?k = "bitlen a - bitlen b"
  show ?thesis
  proof (cases "2 powi ?k \<le> \<bar>x\<bar>")
    case True
    then show ?thesis using q by (simp add: binade_def)
  next
    case False
    then have e: "binade x = ?k - 1" using q by (simp add: binade_def)
    have la: "1 \<le> bitlen a" using apos by (simp add: bitlen_alt_def)
    have lb: "1 \<le> bitlen b" using bpos by (simp add: bitlen_alt_def)
    have a1: "2 ^ nat (bitlen a - 1) \<le> a" using bitlen_bounds [OF apos] by simp
    have b1: "b < 2 ^ nat (bitlen b)" using bitlen_bounds [OF bpos] by simp
    have a2: "(2::rat) ^ nat (bitlen a - 1) \<le> of_int a"
    proof -
      have "(of_int (2 ^ nat (bitlen a - 1)) :: rat) \<le> of_int a"
        using a1 by (simp only: of_int_le_iff)
      then show ?thesis by simp
    qed
    have b2: "(of_int b :: rat) \<le> 2 ^ nat (bitlen b)"
    proof -
      have "b \<le> 2 ^ nat (bitlen b)" using b1 by simp
      then have "(of_int b :: rat) \<le> of_int (2 ^ nat (bitlen b))" by (simp only: of_int_le_iff)
      then show ?thesis by simp
    qed
    have p: "(2::rat) powi (?k - 1) = 2 ^ nat (bitlen a - 1) / 2 ^ nat (bitlen b)"
    proof -
      have "(2::rat) powi (?k - 1) = 2 powi ((bitlen a - 1) - bitlen b)" by (simp add: algebra_simps)
      also have "\<dots> = 2 powi (bitlen a - 1) / 2 powi (bitlen b)" by (simp add: power_int_diff)
      also have "\<dots> = 2 ^ nat (bitlen a - 1) / 2 ^ nat (bitlen b)"
        using la lb by (simp add: power_int_def)
      finally show ?thesis .
    qed
    have "(2::rat) ^ nat (bitlen a - 1) / 2 ^ nat (bitlen b) \<le> of_int a / of_int b"
      using a2 b2 bpos apos by (intro frac_le) simp_all
    then show ?thesis using e p xe by simp
  qed
qed

text \<open>Rounding to \<open>p\<close> bits changes a number by at most the fraction \<open>2^-p\<close> of it.\<close>

lemma fl_err:
  "\<bar>fl p x - x\<bar> \<le> \<bar>x\<bar> / 2 ^ p"
proof (cases "x = 0")
  case True
  then show ?thesis by (simp add: fl_def)
next
  case False
  define u :: rat where "u = 2 powi (binade x - int p + 1)"
  have upos: "0 < u" by (simp add: u_def)
  define n where "n = round_half_even (\<bar>x\<bar> / u)"
  have c: "\<bar>of_int n - \<bar>x\<bar> / u\<bar> \<le> 1 / 2" unfolding n_def by (rule round_half_even_close)
  have "\<bar>of_int n * u - \<bar>x\<bar>\<bar> = \<bar>of_int n - \<bar>x\<bar> / u\<bar> * u"
  proof -
    have "of_int n * u - \<bar>x\<bar> = (of_int n - \<bar>x\<bar> / u) * u" using upos by (simp add: field_simps)
    then show ?thesis using upos by (simp add: abs_mult)
  qed
  then have d: "\<bar>of_int n * u - \<bar>x\<bar>\<bar> \<le> u / 2"
    using c upos by (simp add: field_simps)
  have ue: "u / 2 = 2 powi (binade x) / 2 ^ p"
  proof -
    have "u = 2 powi (binade x - int p) * 2"
      unfolding u_def using power_int_add_1 [of "2::rat" "binade x - int p"] by simp
    moreover have "(2::rat) powi (binade x - int p) = 2 powi (binade x) / 2 powi (int p)"
      by (simp add: power_int_diff)
    ultimately show ?thesis by simp
  qed
  have "u / 2 \<le> \<bar>x\<bar> / 2 ^ p"
    using binade_le [OF False] ue by (simp add: divide_right_mono)
  with d have e: "\<bar>of_int n * u - \<bar>x\<bar>\<bar> \<le> \<bar>x\<bar> / 2 ^ p" by linarith
  have f: "fl p x = (if x < 0 then - 1 else 1) * (of_int n * u)"
    using False by (simp add: fl_def Let_def u_def n_def)
  show ?thesis
  proof (cases "x < 0")
    case True
    then have "fl p x - x = - (of_int n * u - \<bar>x\<bar>)" using f by simp
    then show ?thesis using e by (simp only: abs_minus_cancel)
  next
    case False
    then have "fl p x - x = of_int n * u - \<bar>x\<bar>" using f by simp
    then show ?thesis using e by simp
  qed
qed

lemma fl_minus: "fl p (- x) = - fl p x"
  by (simp add: fl_def binade_def Let_def)

lemma fl_nonneg:
  assumes "0 \<le> x"
  shows "0 \<le> fl p x"
proof (cases "x = 0")
  case True
  then show ?thesis by (simp add: fl_def)
next
  case False
  have "0 \<le> \<bar>x\<bar> / 2 powi (binade x - int p + 1)" by simp
  then have "0 \<le> round_half_even (\<bar>x\<bar> / 2 powi (binade x - int p + 1))"
    by (rule round_half_even_nonneg)
  then show ?thesis using assms False by (simp add: fl_def Let_def)
qed

lemma fl_pos:
  assumes "0 < x" and "0 < p"
  shows "0 < fl p x"
proof -
  have "(2::rat) \<le> 2 ^ p"
    using assms(2) by (metis One_nat_def Suc_leI one_le_numeral power_increasing power_one_right)
  then have h1: "x / 2 ^ p \<le> x / 2" using assms(1) by (intro divide_left_mono) simp_all
  have h2: "x / 2 < x" using assms(1) by simp
  have h3: "\<bar>x\<bar> = x" using assms(1) by simp
  have "\<bar>fl p x - x\<bar> \<le> x / 2 ^ p" using fl_err [of p x] h3 by simp
  then show ?thesis using h1 h2 by linarith
qed

lemma fl_neg_iff:
  assumes "0 < p"
  shows "fl p x < 0 \<longleftrightarrow> x < 0"
proof (cases "x < 0")
  case True
  then have "0 < fl p (- x)" using assms by (simp add: fl_pos)
  then show ?thesis using True by (simp add: fl_minus)
next
  case False
  then have "0 \<le> fl p x" by (simp add: fl_nonneg)
  then show ?thesis using False by simp
qed

lemma fl_bounds:
  assumes "0 \<le> x" and "x \<le> c"
  shows "0 \<le> fl p x \<and> \<bar>fl p x - x\<bar> \<le> c / 2 ^ p"
proof -
  have "\<bar>x\<bar> / 2 ^ p \<le> c / 2 ^ p" using assms by (simp add: divide_right_mono)
  with fl_err [of p x] fl_nonneg [OF assms(1), of p] show ?thesis by linarith
qed

lemma double_to_int_floor:
  assumes "0 \<le> x" and "x < 2147483648"
  shows "double_to_int x = Some (word_of_int \<lfloor>x\<rfloor>)"
    and "sint (word_of_int \<lfloor>x\<rfloor> :: 32 word) = \<lfloor>x\<rfloor>"
    and "unat (word_of_int \<lfloor>x\<rfloor> :: 32 word) = nat \<lfloor>x\<rfloor>"
proof -
  have f0: "0 \<le> \<lfloor>x\<rfloor>" using assms(1) by simp
  have "\<lfloor>x\<rfloor> < 2147483648" using assms(2) by (simp add: floor_less_iff)
  then have f1: "\<lfloor>x\<rfloor> < 2 ^ 31" by simp
  show "double_to_int x = Some (word_of_int \<lfloor>x\<rfloor>)"
    using assms(1) f0 f1 by (simp add: double_to_int_def Let_def)
  show "sint (word_of_int \<lfloor>x\<rfloor> :: 32 word) = \<lfloor>x\<rfloor>"
    using f0 f1 by (simp add: sint_sbintrunc' signed_take_bit_int_eq_self)
  show "unat (word_of_int \<lfloor>x\<rfloor> :: 32 word) = nat \<lfloor>x\<rfloor>"
    using f0 f1 by (simp add: unat_eq_nat_uint uint_word_of_int)
qed

lemma store_rational_ok:
  assumes "0 \<le> sint num" and "0 < sint denom"
  shows "store_rational cs i num denom = cs[i := \<lparr>rat_num = num, rat_denom = denom\<rparr>]"
  using assms by (simp add: store_rational_def getRational_def)

lemma abs_atof:
  assumes "0 \<le> micro str"
  shows "(if atof str < 0 then - atof str else atof str) = fl 53 (of_int (micro str) / 1000000)"
proof -
  let ?t = "of_int (micro str) / 1000000 :: rat"
  have t0: "0 \<le> ?t" using assms by simp
  have f0: "0 \<le> fl 53 ?t" using t0 by (rule fl_nonneg)
  show ?thesis
  proof (cases "negative str")
    case True
    then have "atof str = - fl 53 ?t" by (simp add: atof_def text_value_def fl_minus)
    then show ?thesis using f0 by auto
  next
    case False
    then have "atof str = fl 53 ?t" by (simp add: atof_def text_value_def)
    then show ?thesis using f0 by auto
  qed
qed

text \<open>
  The error analysis of \<open>parseGPSCoordinate\<close>: for a rendered magnitude \<open>t\<close> below
  \<open>2^31\<close> the three casts are defined, and degrees, minutes and ten-thousandths of
  seconds recombine to within half a millionth of \<open>t\<close>. The six roundings contribute less
  than \<open>2^-21\<close>, the truncation of the seconds at most a ten-thousandth of a second.
\<close>

lemma parse_chain:
  fixes t :: rat
  assumes t0: "0 \<le> t" and t1: "t \<le> 2147483647"
  defines "degF \<equiv> fl 53 t"
  defines "minF \<equiv> fl 53 (fl 53 (degF - of_int \<lfloor>degF\<rfloor>) * 60)"
  defines "secF \<equiv> fl 53 (fl 53 (minF - of_int \<lfloor>minF\<rfloor>) * 60)"
  defines "z \<equiv> fl 53 (secF * 10000)"
  shows "0 \<le> degF \<and> degF < 2147483648 \<and> 0 \<le> minF \<and> minF < 2147483648
       \<and> 0 \<le> z \<and> z < 2147483648
       \<and> \<bar>of_int \<lfloor>degF\<rfloor> + of_int \<lfloor>minF\<rfloor> / 60 + of_int \<lfloor>z\<rfloor> / 10000 / 3600 - t\<bar>
            \<le> 1 / 2000000"
proof -
  define e :: rat where "e = 1 / 2 ^ 53"
  have e_val: "e = 1 / 9007199254740992" by (simp add: e_def)
  have d: "0 \<le> degF \<and> \<bar>degF - t\<bar> \<le> 2147483647 / 2 ^ 53"
    unfolding degF_def using t0 t1 by (rule fl_bounds)
  then have d1: "0 \<le> degF" and d2: "\<bar>degF - t\<bar> \<le> 2147483647 * e" by (simp_all add: e_def)
  have d3: "degF < 2147483648" using d2 t1 e_val by (simp add: abs_if split: if_splits)
  define f1 where "f1 = degF - of_int \<lfloor>degF\<rfloor>"
  have f1a: "0 \<le> f1" and f1b: "f1 \<le> 1" unfolding f1_def by linarith+
  define r1 where "r1 = fl 53 f1"
  have "0 \<le> r1 \<and> \<bar>r1 - f1\<bar> \<le> 1 / 2 ^ 53" unfolding r1_def using f1a f1b by (rule fl_bounds)
  then have r1a: "0 \<le> r1" and r1b: "\<bar>r1 - f1\<bar> \<le> e" by (simp_all add: e_def)
  have m0a: "0 \<le> r1 * 60" using r1a by simp
  have m0b: "r1 * 60 \<le> 61" using r1b f1b e_val by (simp add: abs_if split: if_splits)
  have mF: "minF = fl 53 (r1 * 60)" by (simp add: minF_def r1_def f1_def)
  have "0 \<le> minF \<and> \<bar>minF - r1 * 60\<bar> \<le> 61 / 2 ^ 53"
    unfolding mF using m0a m0b by (rule fl_bounds)
  then have m1: "0 \<le> minF" and m2: "\<bar>minF - r1 * 60\<bar> \<le> 61 * e" by (simp_all add: e_def)
  have m3: "minF \<le> 62" using m2 m0b e_val by (simp add: abs_if split: if_splits)
  define f2 where "f2 = minF - of_int \<lfloor>minF\<rfloor>"
  have f2a: "0 \<le> f2" and f2b: "f2 \<le> 1" unfolding f2_def by linarith+
  define r2 where "r2 = fl 53 f2"
  have "0 \<le> r2 \<and> \<bar>r2 - f2\<bar> \<le> 1 / 2 ^ 53" unfolding r2_def using f2a f2b by (rule fl_bounds)
  then have r2a: "0 \<le> r2" and r2b: "\<bar>r2 - f2\<bar> \<le> e" by (simp_all add: e_def)
  have s0a: "0 \<le> r2 * 60" using r2a by simp
  have s0b: "r2 * 60 \<le> 61" using r2b f2b e_val by (simp add: abs_if split: if_splits)
  have sF: "secF = fl 53 (r2 * 60)" by (simp add: secF_def r2_def f2_def)
  have "0 \<le> secF \<and> \<bar>secF - r2 * 60\<bar> \<le> 61 / 2 ^ 53"
    unfolding sF using s0a s0b by (rule fl_bounds)
  then have s1: "0 \<le> secF" and s2: "\<bar>secF - r2 * 60\<bar> \<le> 61 * e" by (simp_all add: e_def)
  have s3: "secF \<le> 62" using s2 s0b e_val by (simp add: abs_if split: if_splits)
  have z0a: "0 \<le> secF * 10000" using s1 by simp
  have z0b: "secF * 10000 \<le> 620000" using s3 by simp
  have "0 \<le> z \<and> \<bar>z - secF * 10000\<bar> \<le> 620000 / 2 ^ 53"
    unfolding z_def using z0a z0b by (rule fl_bounds)
  then have z1: "0 \<le> z" and z2: "\<bar>z - secF * 10000\<bar> \<le> 620000 * e" by (simp_all add: e_def)
  have z3: "z < 2147483648" using z2 z0b e_val by (simp add: abs_if split: if_splits)
  have zf: "of_int \<lfloor>z\<rfloor> \<le> z" "z < of_int \<lfloor>z\<rfloor> + 1" by linarith+
  have A: "\<bar>minF - 60 * f1\<bar> \<le> 121 * e" using m2 r1b by (simp add: abs_if split: if_splits)
  have B: "\<bar>z - 600000 * f2\<bar> \<le> 1830000 * e"
    using z2 s2 r2b by (simp add: abs_if split: if_splits)
  have ef: "of_int \<lfloor>degF\<rfloor> = degF - f1" by (simp add: f1_def)
  have mf: "of_int \<lfloor>minF\<rfloor> = minF - f2" by (simp add: f2_def)
  define g :: rat where "g = of_int \<lfloor>z\<rfloor>"
  have A1: "minF - 60 * f1 \<le> 121 / 9007199254740992"
    and A2: "60 * f1 - minF \<le> 121 / 9007199254740992"
    using A e_val by (simp_all add: abs_if split: if_splits)
  have B1: "z - 600000 * f2 \<le> 1830000 / 9007199254740992"
    and B2: "600000 * f2 - z \<le> 1830000 / 9007199254740992"
    using B e_val by (simp_all add: abs_if split: if_splits)
  have D1: "degF - t \<le> 2147483647 / 9007199254740992"
    and D2: "t - degF \<le> 2147483647 / 9007199254740992"
    using d2 e_val by (simp_all add: abs_if split: if_splits)
  have G1: "g \<le> z" and G2: "z < g + 1" using zf by (simp_all add: g_def)
  define R where "R = degF - f1 + minF / 60 - f2 / 60 + g / 36000000 - t"
  have U: "R \<le> 1 / 2000000"
    unfolding R_def using A1 B1 D1 G1 by linarith
  have L: "- (1 / 2000000) \<le> R"
    unfolding R_def using A2 B2 D2 G2 by linarith
  have RA: "\<bar>R\<bar> \<le> 1 / 2000000" using U L by linarith
  have "of_int \<lfloor>degF\<rfloor> + of_int \<lfloor>minF\<rfloor> / 60 + of_int \<lfloor>z\<rfloor> / 10000 / 3600 - t = R"
    by (simp add: R_def ef mf g_def diff_divide_distrib)
  then have "\<bar>of_int \<lfloor>degF\<rfloor> + of_int \<lfloor>minF\<rfloor> / 60 + of_int \<lfloor>z\<rfloor> / 10000 / 3600 - t\<bar>
               \<le> 1 / 2000000"
    using RA by (simp only:)
  then show ?thesis using d1 d3 m1 m3 z1 z3 by simp
qed

lemma parseGPSCoordinate_result:
  assumes m0: "0 \<le> micro str" and m1: "of_int (micro str) / 1000000 \<le> (2147483647 :: rat)"
      and len: "3 \<le> length cs"
  shows "\<exists>lat. parseGPSCoordinate str (Some cs) = Some (NO_ERROR, Some lat)
           \<and> length lat = length cs \<and> drop 3 lat = drop 3 cs
           \<and> rat_denom (lat ! 0) = 1 \<and> rat_denom (lat ! 1) = 1 \<and> rat_denom (lat ! 2) = 10000
           \<and> \<bar>dms_degrees lat - of_int (micro str) / 1000000\<bar> \<le> 1 / 2000000"
proof -
  define t :: rat where "t = of_int (micro str) / 1000000"
  have t0: "0 \<le> t" using m0 by (simp add: t_def)
  have t1: "t \<le> 2147483647" using m1 by (simp add: t_def)
  define degF where "degF = fl 53 t"
  define minF where "minF = fl 53 (fl 53 (degF - of_int \<lfloor>degF\<rfloor>) * 60)"
  define secF where "secF = fl 53 (fl 53 (minF - of_int \<lfloor>minF\<rfloor>) * 60)"
  define z where "z = fl 53 (secF * 10000)"
  note c = parse_chain [OF t0 t1, folded degF_def, folded minF_def, folded secF_def, folded z_def]
  have dg: "(if atof str < 0 then - atof str else atof str) = degF"
    using abs_atof [OF m0] by (simp add: degF_def t_def)
  define ideg :: "32 word" where "ideg = word_of_int \<lfloor>degF\<rfloor>"
  define imin :: "32 word" where "imin = word_of_int \<lfloor>minF\<rfloor>"
  define isec :: "32 word" where "isec = word_of_int \<lfloor>z\<rfloor>"
  have i1: "double_to_int degF = Some ideg" "sint ideg = \<lfloor>degF\<rfloor>" "unat ideg = nat \<lfloor>degF\<rfloor>"
    using c double_to_int_floor [of degF] by (simp_all add: ideg_def)
  have i2: "double_to_int minF = Some imin" "sint imin = \<lfloor>minF\<rfloor>" "unat imin = nat \<lfloor>minF\<rfloor>"
    using c double_to_int_floor [of minF] by (simp_all add: imin_def)
  have i3: "double_to_int z = Some isec" "sint isec = \<lfloor>z\<rfloor>" "unat isec = nat \<lfloor>z\<rfloor>"
    using c double_to_int_floor [of z] by (simp_all add: isec_def)
  have n1: "0 \<le> \<lfloor>degF\<rfloor>" and n2: "0 \<le> \<lfloor>minF\<rfloor>" and n3: "0 \<le> \<lfloor>z\<rfloor>" using c by simp_all
  define lat where "lat = cs[0 := \<lparr>rat_num = ideg, rat_denom = 1\<rparr>,
                               1 := \<lparr>rat_num = imin, rat_denom = 1\<rparr>,
                               2 := \<lparr>rat_num = isec, rat_denom = 10000\<rparr>]"
  have st: "store_rational (store_rational (store_rational cs 0 ideg 1) (Suc 0) imin 1)
              2 isec 10000 = lat"
    using i1(2) i2(2) i3(2) n1 n2 n3 by (simp add: store_rational_ok lat_def)
  have p: "parseGPSCoordinate str (Some cs) = Some (NO_ERROR, Some lat)"
    using len
    by (simp add: parseGPSCoordinate_def Let_def dg i1 i2 i3 st
                  minF_def [symmetric] secF_def [symmetric] z_def [symmetric])
  have len0: "0 < length cs" "Suc 0 < length cs" "2 < length cs" using len by auto
  have l0: "lat ! 0 = \<lparr>rat_num = ideg, rat_denom = 1\<rparr>"
   and l1: "lat ! 1 = \<lparr>rat_num = imin, rat_denom = 1\<rparr>"
   and l2: "lat ! 2 = \<lparr>rat_num = isec, rat_denom = 10000\<rparr>"
    using len0 by (simp_all add: lat_def)
  have "(of_nat (unat ideg) :: rat) = of_nat (nat \<lfloor>degF\<rfloor>)" by (simp only: i1(3))
  then have u1: "(unsigned ideg :: rat) = of_int \<lfloor>degF\<rfloor>" using n1 by simp
  have "(of_nat (unat imin) :: rat) = of_nat (nat \<lfloor>minF\<rfloor>)" by (simp only: i2(3))
  then have u2: "(unsigned imin :: rat) = of_int \<lfloor>minF\<rfloor>" using n2 by simp
  have "(of_nat (unat isec) :: rat) = of_nat (nat \<lfloor>z\<rfloor>)" by (simp only: i3(3))
  then have u3: "(unsigned isec :: rat) = of_int \<lfloor>z\<rfloor>" using n3 by simp
  have v: "dms_degrees lat
             = of_int \<lfloor>degF\<rfloor> + of_int \<lfloor>minF\<rfloor> / 60 + of_int \<lfloor>z\<rfloor> / 10000 / 3600"
    by (simp add: dms_degrees_def rat_value_def l0 l1 [simplified] l2 u1 u2 u3)
  have "\<bar>dms_degrees lat - t\<bar> \<le> 1 / 2000000" using c v by simp
  moreover have "length lat = length cs \<and> drop 3 lat = drop 3 cs" by (simp add: lat_def)
  ultimately show ?thesis using p l0 l1 l2 by (auto simp: t_def)
qed

text \<open>The rendering of a coordinate below \<open>2^31\<close>: its digits stay below \<open>2^31\<close>
  millions, they are within half a millionth of the magnitude, and the rendering reads
  back negative exactly when the coordinate is below minus half a millionth.\<close>

lemma snprintf_f_text:
  assumes "\<bar>D\<bar> \<le> 2147483647"
  shows "0 \<le> micro (snprintf_f D)"
    and "of_int (micro (snprintf_f D)) / 1000000 \<le> (2147483647 :: rat)"
    and "\<bar>of_int (micro (snprintf_f D)) / 1000000 - \<bar>D\<bar>\<bar> \<le> 1 / 2000000"
    and "strtof (snprintf_f D) < 0 \<longleftrightarrow> D < - (1 / 2000000)"
proof -
  let ?m = "round_half_even (\<bar>D\<bar> * 1000000)"
  have m: "micro (snprintf_f D) = ?m" by (simp add: snprintf_f_def)
  show a: "0 \<le> micro (snprintf_f D)" unfolding m by (rule round_half_even_nonneg) simp
  have "\<bar>D\<bar> * 1000000 \<le> of_int 2147483647000000" using assms by simp
  then have "?m \<le> 2147483647000000" by (rule round_half_even_le)
  then have "(of_int ?m :: rat) \<le> of_int 2147483647000000" by (simp only: of_int_le_iff)
  then show "of_int (micro (snprintf_f D)) / 1000000 \<le> (2147483647 :: rat)" unfolding m by simp
  have "\<bar>of_int ?m - \<bar>D\<bar> * 1000000\<bar> \<le> 1 / 2" by (rule round_half_even_close)
  then show "\<bar>of_int (micro (snprintf_f D)) / 1000000 - \<bar>D\<bar>\<bar> \<le> 1 / 2000000"
    unfolding m by (simp add: abs_if field_simps split: if_splits)
  have z: "?m = 0 \<longleftrightarrow> \<bar>D\<bar> * 1000000 \<le> 1 / 2" by (rule round_half_even_zero_iff) simp
  have mn: "0 \<le> ?m" using a m by simp
  have "strtof (snprintf_f D) < 0 \<longleftrightarrow> text_value (snprintf_f D) < 0"
    by (simp add: strtof_def fl_neg_iff)
  also have "\<dots> \<longleftrightarrow> D < 0 \<and> ?m \<noteq> 0"
    using mn by (auto simp: text_value_def snprintf_f_def)
  also have "\<dots> \<longleftrightarrow> D < - (1 / 2000000)"
    using z by (auto simp: abs_if split: if_splits)
  finally show "strtof (snprintf_f D) < 0 \<longleftrightarrow> D < - (1 / 2000000)" .
qed

text \<open>
  C7, as stated, at the coordinate \<open>-0.0000001\<close>: it is negative, so the claim promises
  the reference letter S for a latitude and W for a longitude, but its rendering is
  \<open>-0.000000\<close>, which reads back as a zero that is not below zero, and the letters are N
  and E.
\<close>

theorem C7_hemisphere_counterexample:
  "(- (1 / 10000000) :: rat) < 0
   \<and> getExifLatitude (Some sample_cells) (- (1 / 10000000))
       = Some (NO_ERROR, Some [\<lparr>rat_num = 0, rat_denom = 1\<rparr>, \<lparr>rat_num = 0, rat_denom = 1\<rparr>,
                               \<lparr>rat_num = 0, rat_denom = 10000\<rparr>], ''N'')
   \<and> getExifLongitude (Some sample_cells) (- (1 / 10000000))
       = Some (NO_ERROR, Some [\<lparr>rat_num = 0, rat_denom = 1\<rparr>, \<lparr>rat_num = 0, rat_denom = 1\<rparr>,
                               \<lparr>rat_num = 0, rat_denom = 10000\<rparr>], ''E'')"
  by code_simp

text \<open>
  C7, amended: for every signed decimal-degree coordinate \<open>D\<close> of magnitude at most
  \<open>2^31 - 1\<close>, written into an array of at least three cells, the latitude and the
  longitude computation return \<open>NO_ERROR\<close>; the reference letter is chosen by the sign
  of \<open>D\<close> as rendered with six decimals, that is S (for a longitude W) when \<open>D\<close> is below
  \<open>-0.0000005\<close> and N (E) otherwise; and the triplet written has the denominators 1, 1
  and 10000 and recombines, as degrees + minutes/60 + seconds/3600, to within \<open>1e-4\<close> of
  \<open>|D|\<close>. The other cells of the array are left as they were.
\<close>

theorem C7_gps_coordinate:
  assumes "\<bar>D\<bar> \<le> 2147483647" and "3 \<le> length cs"
  shows "\<exists>lat. getExifLatitude (Some cs) D
                  = Some (NO_ERROR, Some lat, if D < - (1 / 2000000) then ''S'' else ''N'')
             \<and> getExifLongitude (Some cs) D
                  = Some (NO_ERROR, Some lat, if D < - (1 / 2000000) then ''W'' else ''E'')
             \<and> length lat = length cs \<and> drop 3 lat = drop 3 cs
             \<and> rat_denom (lat ! 0) = 1 \<and> rat_denom (lat ! 1) = 1 \<and> rat_denom (lat ! 2) = 10000
             \<and> \<bar>dms_degrees lat - \<bar>D\<bar>\<bar> \<le> 1 / 10000"
proof -
  note s = snprintf_f_text [OF assms(1)]
  from parseGPSCoordinate_result [OF s(1) s(2) assms(2)] obtain lat where
    p: "parseGPSCoordinate (snprintf_f D) (Some cs) = Some (NO_ERROR, Some lat)"
    and l: "length lat = length cs \<and> drop 3 lat = drop 3 cs
           \<and> rat_denom (lat ! 0) = 1 \<and> rat_denom (lat ! 1) = 1 \<and> rat_denom (lat ! 2) = 10000"
    and b: "\<bar>dms_degrees lat - of_int (micro (snprintf_f D)) / 1000000\<bar> \<le> 1 / 2000000"
    by blast
  have "\<bar>dms_degrees lat - \<bar>D\<bar>\<bar> \<le> 1 / 10000" using b s(3) by linarith
  moreover have "getExifLatitude (Some cs) D
                  = Some (NO_ERROR, Some lat, if D < - (1 / 2000000) then ''S'' else ''N'')"
    using p s(4) by (simp add: getExifLatitude_def Let_def)
  moreover have "getExifLongitude (Some cs) D
                  = Some (NO_ERROR, Some lat, if D < - (1 / 2000000) then ''W'' else ''E'')"
    using p s(4) by (simp add: getExifLongitude_def Let_def)
  ultimately show ?thesis using l by blast
qed

lemma latitude_eval:
  "getExifLatitude (Some sample_cells) (- (1224194 / 10000))
     = Some (NO_ERROR, Some [\<lparr>rat_num = 122, rat_denom = 1\<rparr>, \<lparr>rat_num = 25, rat_denom = 1\<rparr>,
                             \<lparr>rat_num = 98399, rat_denom = 10000\<rparr>], ''S'')"
  by code_simp

lemma longitude_eval:
  "getExifLongitude (Some sample_cells) (377749 / 10000)
     = Some (NO_ERROR, Some [\<lparr>rat_num = 37, rat_denom = 1\<rparr>, \<lparr>rat_num = 46, rat_denom = 1\<rparr>,
                             \<lparr>rat_num = 296400, rat_denom = 10000\<rparr>], ''E'')"
  by code_simp

theorem C7_gps_coordinate_witness:
  "getExifLatitude (Some sample_cells) (- (1224194 / 10000))
     = Some (NO_ERROR, Some [\<lparr>rat_num = 122, rat_denom = 1\<rparr>, \<lparr>rat_num = 25, rat_denom = 1\<rparr>,
                             \<lparr>rat_num = 98399, rat_denom = 10000\<rparr>], ''S'')
   \<and> \<bar>dms_degrees [\<lparr>rat_num = 122, rat_denom = 1\<rparr>, \<lparr>rat_num = 25, rat_denom = 1\<rparr>,
                     \<lparr>rat_num = 98399, rat_denom = 10000\<rparr>] - 1224194 / 10000\<bar> \<le> 1 / 10000
   \<and> getExifLongitude (Some sample_cells) (377749 / 10000)
     = Some (NO_ERROR, Some [\<lparr>rat_num = 37, rat_denom = 1\<rparr>, \<lparr>rat_num = 46, rat_denom = 1\<rparr>,
                             \<lparr>rat_num = 296400, rat_denom = 10000\<rparr>], ''E'')
   \<and> \<bar>dms_degrees [\<lparr>rat_num = 37, rat_denom = 1\<rparr>, \<lparr>rat_num = 46, rat_denom = 1\<rparr>,
                     \<lparr>rat_num = 296400, rat_denom = 10000\<rparr>] - 377749 / 10000\<bar> \<le> 1 / 10000"
  using C7_gps_coordinate [of "- (1224194 / 10000)" sample_cells]
        C7_gps_coordinate [of "377749 / 10000" sample_cells]
        latitude_eval longitude_eval
  by (auto simp: sample_cells_def)


end
